theory Spec2Isabelle
  imports Main "HOL-Library.AList"
begin

section \<open>Python values and exceptions\<close>

text \<open>
  A Python \<open>str\<close> is a \<open>string\<close>; characters are the code points below 256.
  A \<open>dict\<close> with string keys is an association list with distinct keys, in insertion
  order: \<open>d[k] = v\<close> is \<open>AList.update k v d\<close> (an existing key keeps its place, a new
  one goes to the end) and \<open>k in d\<close> is \<open>map_of d k \<noteq> None\<close>.

  The exceptions the code can raise are the constructors of \<open>error\<close>. The code raises
  \<open>Exception('Something wrong here')\<close> for a malformed header line; a malformed data
  line is the \<open>ValueError\<close> of the tuple unpacking or of \<open>float\<close>.
\<close>

datatype error =
    FileNotFoundError
  | OSError
  | TypeError
  | ValueError
  | IndexError
  | KeyError
  | OverflowError
  | UnknownTimeZoneError
  | Exception string

text \<open>
  A \<open>float\<close> is kept as the literal it was converted from: rounding to an IEEE double is
  outside this development, and two literals may denote the same double, so nothing
  below relies on two \<open>pyfloat\<close> values being different.
\<close>

datatype pyfloat = PyFloat string

datatype pint_unit = Dimensionless | Nanometer | Second

datatype pyval =
    VNone
  | VStr string
  | VInt int
  | VBool bool
  | VFloat pyfloat
  | VQuantity pyfloat pint_unit
  | VDict "(string \<times> pyval) list"

type_synonym dict = "(string \<times> pyval) list"

type_synonym header = "(string \<times> string) list"

section \<open>String primitives\<close>

text \<open>\<open>str.isspace\<close> on one character, for the code points below 256.\<close>

definition isspace :: "char \<Rightarrow> bool" where
  "isspace c \<longleftrightarrow> c \<in> set [CHR 0x09, CHR 0x0A, CHR 0x0B, CHR 0x0C, CHR 0x0D,
       CHR 0x1C, CHR 0x1D, CHR 0x1E, CHR 0x1F, CHR 0x20, CHR 0x85, CHR 0xA0]"

definition rstrip :: "string \<Rightarrow> string" where
  "rstrip s = rev (dropWhile isspace (rev s))"


fun startswith :: "string \<Rightarrow> string \<Rightarrow> bool" where
  "startswith s [] = True"
| "startswith [] (p # ps) = False"
| "startswith (c # cs) (p # ps) = (c = p \<and> startswith cs ps)"

text \<open>
  \<open>s.split(sep)\<close>: the string is cut at every occurrence of \<open>sep\<close>, scanning from the
  left and resuming after each occurrence. \<open>cur\<close> is the part being collected. Python
  raises ValueError for an empty separator; both call sites pass a literal, and here an
  empty separator never matches.
\<close>

function split_from :: "string \<Rightarrow> string \<Rightarrow> string \<Rightarrow> string list" where
  "split_from sep cur [] = [cur]"
| "split_from sep cur (c # cs) =
     (if sep \<noteq> [] \<and> startswith (c # cs) sep
      then cur # split_from sep [] (drop (length sep) (c # cs))
      else split_from sep (cur @ [c]) cs)"
  by pat_completeness auto
termination
  by (relation "measure (\<lambda>(sep, cur, s). length s)") auto

definition split_sep :: "string \<Rightarrow> string \<Rightarrow> string list" where
  "split_sep s sep = split_from sep [] s"

text \<open>\<open>sep in s\<close> for strings.\<close>

fun contains :: "string \<Rightarrow> string \<Rightarrow> bool" where
  "contains [] sep = (sep = [])"
| "contains (c # cs) sep = (startswith (c # cs) sep \<or> contains cs sep)"

section \<open>The built-in float\<close>

text \<open>
  The whitespace that \<open>float\<close> and \<open>int\<close> ignore around a literal: the ASCII whitespace
  and, of the code points from 128, the spaces 0x85 and 0xA0. The separators 0x1C to
  0x1F are whitespace for \<open>str.isspace\<close> but not here: they stay in the literal and make
  the conversion fail.
\<close>

definition number_space :: "char \<Rightarrow> bool" where
  "number_space c \<longleftrightarrow> c \<in> set [CHR 0x09, CHR 0x0A, CHR 0x0B, CHR 0x0C, CHR 0x0D,
       CHR 0x20, CHR 0x85, CHR 0xA0]"

definition strip_number :: "string \<Rightarrow> string" where
  "strip_number s = rev (dropWhile number_space (rev (dropWhile number_space s)))"

definition isdigit :: "char \<Rightarrow> bool" where
  "isdigit c \<longleftrightarrow> c \<in> set ''0123456789''"

text \<open>
  Underscores in a numeric literal: each must stand between two digits. The function
  returns the literal without them, or None.
\<close>

fun strip_underscores :: "char option \<Rightarrow> string \<Rightarrow> string option" where
  "strip_underscores prev [] = (if prev = Some CHR ''_'' then None else Some [])"
| "strip_underscores prev (c # cs) =
     (if c = CHR ''_''
      then (case prev of
              None \<Rightarrow> None
            | Some p \<Rightarrow> if isdigit p then strip_underscores (Some c) cs else None)
      else if prev = Some CHR ''_'' \<and> \<not> isdigit c then None
      else map_option ((#) c) (strip_underscores (Some c) cs))"

definition ascii_lower :: "char \<Rightarrow> char" where
  "ascii_lower c =
     (let n = (of_char c :: nat) in if 65 \<le> n \<and> n \<le> 90 then char_of (n + 32) else c)"

definition drop_sign :: "string \<Rightarrow> string" where
  "drop_sign s = (case s of [] \<Rightarrow> [] | c # cs \<Rightarrow> if c = CHR ''+'' \<or> c = CHR ''-'' then cs else s)"

definition exponent_ok :: "string \<Rightarrow> bool" where
  "exponent_ok s =
     (case s of
        [] \<Rightarrow> True
      | c # cs \<Rightarrow> (c = CHR ''e'' \<or> c = CHR ''E'') \<and> drop_sign cs \<noteq> [] \<and> list_all isdigit (drop_sign cs))"

definition decimal_ok :: "string \<Rightarrow> bool" where
  "decimal_ok s =
     (let ip = takeWhile isdigit s; r1 = dropWhile isdigit s
      in case r1 of
           c # r \<Rightarrow>
             if c = CHR ''.''
             then (ip \<noteq> [] \<or> takeWhile isdigit r \<noteq> []) \<and> exponent_ok (dropWhile isdigit r)
             else ip \<noteq> [] \<and> exponent_ok r1
         | [] \<Rightarrow> ip \<noteq> [])"

definition float_syntax :: "string \<Rightarrow> bool" where
  "float_syntax s =
     (let body = drop_sign s
      in map ascii_lower body \<in> set [''inf'', ''infinity'', ''nan''] \<or> decimal_ok body)"

text \<open>
  \<open>float(s)\<close>: the whitespace around the literal is ignored, underscores are checked and
  removed,
  and the rest must be a decimal literal with optional fraction and exponent, or
  \<open>inf\<close>, \<open>infinity\<close> or \<open>nan\<close> in any case, each with an optional sign. Anything else
  raises ValueError.
\<close>

definition py_float :: "string \<Rightarrow> error + pyfloat" where
  "py_float s =
     (case strip_underscores None (strip_number s) of
        None \<Rightarrow> Inl ValueError
      | Some t \<Rightarrow> if float_syntax t then Inr (PyFloat t) else Inl ValueError)"

section \<open>UVVisSpectrum.read: the loop over the lines\<close>

text \<open>
  The local variables of the loop (\<open>x_values\<close>, \<open>y_values\<close>, \<open>first_line\<close>,
  \<open>data_block\<close>) and the instance's \<open>_header\<close>, which the loop writes to directly.
\<close>

record loop_state =
  l_header :: header
  x_values :: "pyfloat list"
  y_values :: "pyfloat list"
  first_line :: bool
  data_block :: bool

definition marker :: string where
  "marker = ''>>>>>Begin Spectral Data<<<<<''"

definition tab :: string where
  "tab = [CHR 0x09]"

text \<open>
  The body of the \<open>for\<close> loop on one line of the file. The result is the exception
  raised by the body, if any, and the state it leaves: \<open>x_values.append(float(x))\<close> has
  run when \<open>float(y)\<close> raises.
\<close>

definition data_line :: "string \<Rightarrow> loop_state \<Rightarrow> error option \<times> loop_state" where
  "data_line line st =
     (case split_sep line tab of
        [x, y] \<Rightarrow>
          (case py_float x of
             Inl e \<Rightarrow> (Some e, st)
           | Inr fx \<Rightarrow>
               let st1 = st\<lparr>x_values := x_values st @ [fx]\<rparr>
               in (case py_float y of
                     Inl e \<Rightarrow> (Some e, st1)
                   | Inr fy \<Rightarrow> (None, st1\<lparr>y_values := y_values st1 @ [fy]\<rparr>)))
      | _ \<Rightarrow> (Some ValueError, st))"

definition header_line :: "string \<Rightarrow> loop_state \<Rightarrow> error option \<times> loop_state" where
  "header_line line st =
     (let parts = split_sep line '': ''
      in if length parts \<noteq> 2 then (Some (Exception ''Something wrong here''), st)
         else (None, st\<lparr>l_header := AList.update (parts ! 0) (parts ! 1) (l_header st)\<rparr>))"

definition step :: "string \<Rightarrow> loop_state \<Rightarrow> error option \<times> loop_state" where
  "step raw st =
     (let line = rstrip raw
      in if first_line st
         then (None, st\<lparr>l_header := AList.update ''Description'' line (l_header st),
                        first_line := False\<rparr>)
         else if line = [] then (None, st)
         else if line = marker then (None, st\<lparr>data_block := True\<rparr>)
         else if data_block st then data_line line st
         else header_line line st)"

fun run_lines :: "string list \<Rightarrow> loop_state \<Rightarrow> error option \<times> loop_state" where
  "run_lines [] st = (None, st)"
| "run_lines (l # ls) st =
     (case step l st of
        (Some e, st') \<Rightarrow> (Some e, st')
      | (None, st') \<Rightarrow> run_lines ls st')"

definition loop_init :: loop_state where
  "loop_init = \<lparr>l_header = [], x_values = [], y_values = [], first_line = True,
                data_block = False\<rparr>"


section \<open>utilities.pintutils.unitmanager\<close>

text \<open>
  The three units the code passes, and \<open>f"{unit:~}"\<close>, their short form: \<open>nm\<close>, \<open>s\<close>,
  and the empty string for the dimensionless unit (as the function's docstring shows).
\<close>

definition short_format :: "pint_unit \<Rightarrow> string" where
  "short_format u = (case u of Dimensionless \<Rightarrow> [] | Nanometer \<Rightarrow> ''nm'' | Second \<Rightarrow> ''s'')"

definition digit_char :: "nat \<Rightarrow> char" where
  "digit_char n = char_of (48 + n)"

function str_nat :: "nat \<Rightarrow> string" where
  "str_nat n = (if n < 10 then [digit_char n] else str_nat (n div 10) @ [digit_char (n mod 10)])"
  by pat_completeness auto
termination
  by (relation "measure id") auto

text \<open>\<open>f"{value}"\<close> for an \<open>int\<close>.\<close>

definition str_int :: "int \<Rightarrow> string" where
  "str_int i = (if i < 0 then CHR ''-'' # str_nat (nat (- i)) else str_nat (nat i))"

text \<open>
  The \<open>value\<close> argument is a Python \<open>int\<close> or None. \<open>if value:\<close> tests its truth value:
  None and 0 are false.
\<close>

definition unitmanager :: "string \<Rightarrow> pint_unit option \<Rightarrow> int option \<Rightarrow> dict" where
  "unitmanager label unit value =
     (let u = (case unit of None \<Rightarrow> Dimensionless | Some u' \<Rightarrow> u');
          output = AList.update ''name'' (VStr label) [];
          output = AList.update ''unit'' (VStr (short_format u)) output;
          output =
            (if map_of output ''unit'' = Some (VStr [])
             then AList.update ''label'' (VStr label) output
             else AList.update ''label'' (VStr (label @ '' ('' @ short_format u @ '')'')) output)
      in case value of
           None \<Rightarrow> output
         | Some v \<Rightarrow>
             if v = 0 then output
             else let output = AList.update ''value'' (VInt v) output
                  in if map_of output ''unit'' = Some (VStr [])
                     then AList.update ''quantity'' (VStr (str_int v)) output
                     else AList.update ''quantity''
                            (VStr (str_int v @ '' '' @ short_format u)) output)"

section \<open>Conversions used by the metadata\<close>

text \<open>\<open>s.split()\<close>: the maximal runs of characters that are not whitespace.\<close>

fun words_from :: "string \<Rightarrow> string \<Rightarrow> string list" where
  "words_from cur [] = (if cur = [] then [] else [cur])"
| "words_from cur (c # cs) =
     (if isspace c then (if cur = [] then words_from [] cs else cur # words_from [] cs)
      else words_from (cur @ [c]) cs)"

definition split_ws :: "string \<Rightarrow> string list" where
  "split_ws s = words_from [] s"

text \<open>\<open>str.lower\<close> on the code points below 256.\<close>

definition lower_char :: "char \<Rightarrow> char" where
  "lower_char c =
     (let n = (of_char c :: nat)
      in if (65 \<le> n \<and> n \<le> 90) \<or> (192 \<le> n \<and> n \<le> 222 \<and> n \<noteq> 215)
         then char_of (n + 32) else c)"

definition lower :: "string \<Rightarrow> string" where
  "lower s = map lower_char s"

definition nat_of_digits :: "string \<Rightarrow> nat" where
  "nat_of_digits d = foldl (\<lambda>a c. 10 * a + (of_char c - 48)) 0 d"

text \<open>
  \<open>int(s)\<close> in base 10: the whitespace around the literal is ignored, then come an
  optional sign and digits, with single underscores allowed between digits. A literal
  of more than 4300 digits is refused (the default limit of CPython 3.11 and later,
  which counts neither the sign nor the underscores).
\<close>

definition py_int :: "string \<Rightarrow> error + int" where
  "py_int s =
     (case strip_underscores None (strip_number s) of
        None \<Rightarrow> Inl ValueError
      | Some t \<Rightarrow>
          let d = drop_sign t
          in if d \<noteq> [] \<and> list_all isdigit d \<and> length d \<le> 4300
             then Inr ((if startswith t ''-'' then - 1 else 1) * int (nat_of_digits d))
             else Inl ValueError)"

text \<open>
  \<open>datetime.strptime(s, "%b").month\<close> in the C locale: the whole string is a
  three-letter month abbreviation, in any case.
\<close>

definition strptime_month :: "string \<Rightarrow> error + nat" where
  "strptime_month s =
     (case map_of (zip [''jan'', ''feb'', ''mar'', ''apr'', ''may'', ''jun'',
                        ''jul'', ''aug'', ''sep'', ''oct'', ''nov'', ''dec''] [1 ..< 13])
                  (map ascii_lower s) of
        None \<Rightarrow> Inl ValueError
      | Some m \<Rightarrow> Inr m)"

definition is_leap :: "int \<Rightarrow> bool" where
  "is_leap y \<longleftrightarrow> y mod 4 = 0 \<and> (y mod 100 \<noteq> 0 \<or> y mod 400 = 0)"

definition days_in_month :: "int \<Rightarrow> nat \<Rightarrow> int" where
  "days_in_month y m =
     (if m = 2 then (if is_leap y then 29 else 28)
      else if m \<in> set [4, 6, 9, 11] then 30 else 31)"

text \<open>
  \<open>date(year, month, day)\<close>: OverflowError when an argument does not fit a C int,
  ValueError when it is out of the calendar's range.
\<close>

definition py_date :: "int \<Rightarrow> nat \<Rightarrow> int \<Rightarrow> error + (nat \<times> nat \<times> nat)" where
  "py_date y m d =
     (if \<not> (- (2 ^ 31) \<le> y \<and> y < 2 ^ 31 \<and> - (2 ^ 31) \<le> d \<and> d < 2 ^ 31) then Inl OverflowError
      else if 1 \<le> y \<and> y \<le> 9999 \<and> 1 \<le> m \<and> m \<le> 12 \<and> 1 \<le> d \<and> d \<le> days_in_month y m
      then Inr (nat y, m, nat d)
      else Inl ValueError)"

text \<open>
  Two functions of the standard library and of \<open>pytz\<close> are parameters of the model:
  \<open>time.fromisoformat\<close>, giving hour, minute, second and microsecond or raising
  ValueError (None), and \<open>pytz.timezone\<close>, raising UnknownTimeZoneError (None) for a name
  it does not know and otherwise giving a time zone, of which the model keeps the UTC
  offset in seconds that it reports for the combined timestamp.
\<close>

record pylib =
  time_fromisoformat :: "string \<Rightarrow> (nat \<times> nat \<times> nat \<times> nat) option"
  pytz_timezone :: "string \<Rightarrow> int option"

definition zfill :: "nat \<Rightarrow> string \<Rightarrow> string" where
  "zfill w s = replicate (w - length s) CHR ''0'' @ s"

definition format_offset :: "int \<Rightarrow> string" where
  "format_offset off =
     (let a = nat \<bar>off\<bar>
      in (if off < 0 then ''-'' else ''+'') @ zfill 2 (str_nat (a div 3600)) @ '':''
         @ zfill 2 (str_nat ((a mod 3600) div 60))
         @ (if a mod 60 \<noteq> 0 then '':'' @ zfill 2 (str_nat (a mod 60)) else []))"

text \<open>
  \<open>datetime.combine(thedate, thetime, thetimezone).isoformat()\<close>. A UTC offset of a day
  or more makes \<open>isoformat\<close> raise ValueError.
\<close>

definition isoformat :: "nat \<times> nat \<times> nat \<Rightarrow> nat \<times> nat \<times> nat \<times> nat \<Rightarrow> int \<Rightarrow> error + string" where
  "isoformat dt tm off =
     (case (dt, tm) of
        ((y, m, d), (hh, mm, ss, us)) \<Rightarrow>
          if \<bar>off\<bar> \<ge> 86400 then Inl ValueError
          else Inr (zfill 4 (str_nat y) @ ''-'' @ zfill 2 (str_nat m) @ ''-'' @ zfill 2 (str_nat d)
                    @ ''T'' @ zfill 2 (str_nat hh) @ '':'' @ zfill 2 (str_nat mm) @ '':''
                    @ zfill 2 (str_nat ss)
                    @ (if us \<noteq> 0 then ''.'' @ zfill 6 (str_nat us) else [])
                    @ format_offset off))"

text \<open>\<open>xs[i]\<close> for a list and a non-negative index.\<close>

definition item :: "'a list \<Rightarrow> nat \<Rightarrow> error + 'a" where
  "item xs i = (if i < length xs then Inr (xs ! i) else Inl IndexError)"

section \<open>UVVisSpectrum._date_to_isoformat\<close>

text \<open>Sequencing of statements that may raise: the first exception ends the method.\<close>

definition and_then :: "error + 'a \<Rightarrow> ('a \<Rightarrow> error + 'b) \<Rightarrow> error + 'b" where
  "and_then r f = (case r of Inl e \<Rightarrow> Inl e | Inr x \<Rightarrow> f x)"

definition or_raise :: "error \<Rightarrow> 'a option \<Rightarrow> error + 'a" where
  "or_raise e r = (case r of None \<Rightarrow> Inl e | Some x \<Rightarrow> Inr x)"

text \<open>
  The statements of the method in their order; each may raise. Without a \<open>Date\<close> key
  the method returns None.
\<close>

definition date_to_isoformat :: "pylib \<Rightarrow> header \<Rightarrow> error + string option" where
  "date_to_isoformat lib hdr =
     (case map_of hdr ''Date'' of
        None \<Rightarrow> Inr None
      | Some v \<Rightarrow>
          (let date_parts = split_ws v in
           and_then (item date_parts 5) (\<lambda>p5.
           and_then (py_int p5) (\<lambda>year.
           and_then (item date_parts 1) (\<lambda>p1.
           and_then (strptime_month p1) (\<lambda>month.
           and_then (item date_parts 2) (\<lambda>p2.
           and_then (py_int p2) (\<lambda>day.
           and_then (py_date year month day) (\<lambda>thedate.
           and_then (item date_parts 3) (\<lambda>p3.
           and_then (or_raise ValueError (time_fromisoformat lib p3)) (\<lambda>thetime.
           and_then (item date_parts 4) (\<lambda>p4.
           and_then (or_raise UnknownTimeZoneError (pytz_timezone lib p4)) (\<lambda>thetimezone.
           and_then (isoformat thedate thetime thetimezone) (\<lambda>s.
           Inr (Some s)))))))))))))))"

text \<open>
  The same statements on the five tokens they use, for a date of six tokens or more
  (\<open>date_to_isoformat_tokens\<close> below).
\<close>

definition date_of_tokens :: "pylib \<Rightarrow> string \<Rightarrow> string \<Rightarrow> string \<Rightarrow> string \<Rightarrow> string \<Rightarrow> error + string option" where
  "date_of_tokens lib p1 p2 p3 p4 p5 =
           and_then (py_int p5) (\<lambda>year.
           and_then (strptime_month p1) (\<lambda>month.
           and_then (py_int p2) (\<lambda>day.
           and_then (py_date year month day) (\<lambda>thedate.
           and_then (or_raise ValueError (time_fromisoformat lib p3)) (\<lambda>thetime.
           and_then (or_raise UnknownTimeZoneError (pytz_timezone lib p4)) (\<lambda>thetimezone.
           and_then (isoformat thedate thetime thetimezone) (\<lambda>s.
           Inr (Some s))))))))"

section \<open>UVVisSpectrum._extract_metadata\<close>

text \<open>
  The method writes \<open>self._metadata\<close> key by key, so an exception leaves the keys
  written so far. A statement of the method takes the metadata and gives the exception
  it raises, if any, and the metadata after it.
\<close>

type_synonym statement = "dict \<Rightarrow> error option \<times> dict"

definition assign :: "string \<Rightarrow> pyval \<Rightarrow> statement" where
  "assign k v md = (None, AList.update k v md)"

text \<open>\<open>if key in self._header: self._metadata[target] = conv(self._header[key])\<close>\<close>

definition from_header :: "header \<Rightarrow> string \<Rightarrow> string \<Rightarrow> (string \<Rightarrow> error + pyval) \<Rightarrow> statement" where
  "from_header hdr key target conv md =
     (case map_of hdr key of
        None \<Rightarrow> (None, md)
      | Some s \<Rightarrow> (case conv s of Inl e \<Rightarrow> (Some e, md) | Inr v \<Rightarrow> (None, AList.update target v md)))"

fun run_statements :: "statement list \<Rightarrow> statement" where
  "run_statements [] md = (None, md)"
| "run_statements (f # fs) md =
     (case f md of (Some e, md') \<Rightarrow> (Some e, md') | (None, md') \<Rightarrow> run_statements fs md')"

definition int_value :: "string \<Rightarrow> error + pyval" where
  "int_value s = and_then (py_int s) (\<lambda>i. Inr (VInt i))"

definition seconds_value :: "string \<Rightarrow> error + pyval" where
  "seconds_value s = and_then (py_float s) (\<lambda>f. Inr (VQuantity f Second))"

definition bool_value :: "string \<Rightarrow> error + pyval" where
  "bool_value s = Inr (VBool (lower s \<noteq> ''false''))"

definition vendor_header :: "header \<Rightarrow> pyval" where
  "vendor_header hdr = VDict (map (\<lambda>(k, v). (k, VStr v)) hdr)"

definition instrument :: "header \<Rightarrow> dict" where
  "instrument hdr =
     (let d = AList.update ''vendor'' (VStr ''Ocean Insight'') []
      in case map_of hdr ''Spectrometer'' of
           None \<Rightarrow> d
         | Some s \<Rightarrow> AList.update ''spectrometer'' (VStr s) d)"

text \<open>The x-axis label of lines 243 to 250.\<close>

definition x_label :: "header \<Rightarrow> dict" where
  "x_label hdr =
     (case map_of hdr ''XAxis mode'' of
        Some v \<Rightarrow>
          if lower v = ''wavelengths'' then unitmanager ''wavelength'' (Some Nanometer) None
          else unitmanager v (Some Dimensionless) None
      | None \<Rightarrow> unitmanager ''x'' (Some Dimensionless) None)"

definition y_label :: dict where
  "y_label = unitmanager ''absorbance'' (Some Dimensionless) None"

definition acquisition_date :: "pylib \<Rightarrow> header \<Rightarrow> statement" where
  "acquisition_date lib hdr md =
     (case map_of hdr ''Date'' of
        None \<Rightarrow> (None, md)
      | Some _ \<Rightarrow>
          (case date_to_isoformat lib hdr of
             Inl e \<Rightarrow> (Some e, md)
           | Inr None \<Rightarrow> (None, AList.update ''acquisition-date'' VNone md)
           | Inr (Some s) \<Rightarrow> (None, AList.update ''acquisition-date'' (VStr s) md)))"

definition extract_metadata :: "pylib \<Rightarrow> header \<Rightarrow> statement" where
  "extract_metadata lib hdr =
     run_statements
       [assign ''vendor_header'' (vendor_header hdr),
        assign ''technique'' (VStr ''UV-vis spectroscopy''),
        assign ''technique-iri'' (VStr ''http://purl.obolibrary.org/obo/CHMO_0000292''),
        assign ''instrument'' (VDict (instrument hdr)),
        from_header hdr ''Trigger mode'' ''Trigger mode'' int_value,
        from_header hdr ''Scans to average'' ''scans'' int_value,
        from_header hdr ''Integration Time (sec)'' ''dwell-time'' seconds_value,
        from_header hdr ''Nonlinearity correction enabled'' ''Nonlinearity correction enabled''
          bool_value,
        from_header hdr ''Boxcar width'' ''Boxcar width'' int_value,
        from_header hdr ''Storing dark spectrum'' ''Storing dark spectrum'' bool_value,
        assign ''abscissa'' (VDict (x_label hdr)),
        assign ''ordinate'' (VDict y_label),
        from_header hdr ''Number of Pixels in Spectrum'' ''number-of-data-points'' int_value,
        acquisition_date lib hdr]"

text \<open>The statements of \<open>_extract_metadata\<close> before the x-axis label.\<close>

definition statements_before_abscissa :: "header \<Rightarrow> statement list" where
  "statements_before_abscissa hdr =
       [assign ''vendor_header'' (vendor_header hdr),
        assign ''technique'' (VStr ''UV-vis spectroscopy''),
        assign ''technique-iri'' (VStr ''http://purl.obolibrary.org/obo/CHMO_0000292''),
        assign ''instrument'' (VDict (instrument hdr)),
        from_header hdr ''Trigger mode'' ''Trigger mode'' int_value,
        from_header hdr ''Scans to average'' ''scans'' int_value,
        from_header hdr ''Integration Time (sec)'' ''dwell-time'' seconds_value,
        from_header hdr ''Nonlinearity correction enabled'' ''Nonlinearity correction enabled''
          bool_value,
        from_header hdr ''Boxcar width'' ''Boxcar width'' int_value,
        from_header hdr ''Storing dark spectrum'' ''Storing dark spectrum'' bool_value]"

section \<open>UVVisSpectrum.read\<close>

text \<open>
  The instance: \<open>_filename\<close>, \<open>_metadata\<close>, \<open>_header\<close> and \<open>_data\<close>. The data frame is
  its column labels and its rows; \<open>pd.DataFrame()\<close> has neither.
\<close>

record dataframe =
  columns :: "pyval list"
  rows :: "(pyfloat \<times> pyfloat) list"

record spectrum =
  filename :: "string option"
  metadata :: dict
  header :: header
  data :: dataframe

definition empty_frame :: dataframe where
  "empty_frame = \<lparr>columns = [], rows = []\<rparr>"

text \<open>
  What \<open>Path(name).open()\<close> does for each name: the file does not exist
  (FileNotFoundError), it cannot be opened for another reason (another OSError, such
  as PermissionError or IsADirectoryError), or it opens and yields its lines.
\<close>

datatype opened = NoSuchFile | CannotOpen | Lines "string list"

type_synonym filesystem = "string \<Rightarrow> opened"

datatype outcome = Returned | Raised error

definition getitem :: "dict \<Rightarrow> string \<Rightarrow> error + pyval" where
  "getitem d k = or_raise KeyError (map_of d k)"

text \<open>\<open>self._metadata[axis]['label']\<close>\<close>

definition axis_label :: "dict \<Rightarrow> string \<Rightarrow> error + pyval" where
  "axis_label md axis =
     and_then (getitem md axis)
       (\<lambda>v. case v of VDict d \<Rightarrow> getitem d ''label'' | _ \<Rightarrow> Inl TypeError)"

text \<open>
  The statements after the loop, from \<open>self._extract_metadata()\<close> to the end of the
  \<open>try\<close> block, on the instance and the two lists of the loop.
\<close>

definition finish :: "pylib \<Rightarrow> pyfloat list \<Rightarrow> pyfloat list \<Rightarrow> spectrum \<Rightarrow> outcome \<times> spectrum" where
  "finish lib xs ys self =
     (case extract_metadata lib (header self) (metadata self) of
        (Some e, md) \<Rightarrow> (Raised e, self\<lparr>metadata := md\<rparr>)
      | (None, md) \<Rightarrow>
          let self = self\<lparr>metadata := md\<rparr>
          in case axis_label md ''abscissa'' of Inl e \<Rightarrow> (Raised e, self) | Inr xl \<Rightarrow>
             case axis_label md ''ordinate'' of Inl e \<Rightarrow> (Raised e, self) | Inr yl \<Rightarrow>
             let self = self\<lparr>data := \<lparr>columns = [xl, yl], rows = zip xs ys\<rparr>\<rparr>
             in case xs of
                  [] \<Rightarrow> (Raised IndexError, self)
                | x # _ \<Rightarrow>
                    let md = AList.update ''lowest-observed-wavelength'' (VFloat x) md;
                        md = AList.update ''highest-observed-wavelength'' (VFloat (last xs)) md
                    in (Returned, self\<lparr>metadata := md\<rparr>))"

text \<open>The body of the \<open>try\<close> block.\<close>

definition read_body :: "pylib \<Rightarrow> filesystem \<Rightarrow> string option \<Rightarrow> spectrum \<Rightarrow> outcome \<times> spectrum" where
  "read_body lib fs name self =
     (let self = (case name of
                    None \<Rightarrow> self
                  | Some n \<Rightarrow> if n = [] then self else self\<lparr>filename := Some n\<rparr>)
      in case filename self of
           None \<Rightarrow> (Raised TypeError, self)
         | Some path \<Rightarrow>
             let self = self\<lparr>metadata := [], header := [], data := empty_frame\<rparr>
             in case fs path of
                  NoSuchFile \<Rightarrow> (Raised FileNotFoundError, self)
                | CannotOpen \<Rightarrow> (Raised OSError, self)
                | Lines ls \<Rightarrow>
                    (case run_lines ls loop_init of
                       (Some e, st) \<Rightarrow> (Raised e, self\<lparr>header := l_header st\<rparr>)
                     | (None, st) \<Rightarrow>
                         finish lib (x_values st) (y_values st) (self\<lparr>header := l_header st\<rparr>)))"

text \<open>
  \<open>read\<close>: the \<open>try\<close> block with its handler, \<open>except FileNotFoundError as err:
  print(err)\<close>. The result is how the call ends, what it printed, and the instance.
\<close>

definition read :: "pylib \<Rightarrow> filesystem \<Rightarrow> string option \<Rightarrow> spectrum \<Rightarrow> outcome \<times> error list \<times> spectrum" where
  "read lib fs name self =
     (case read_body lib fs name self of
        (Raised e, self') \<Rightarrow>
          if e = FileNotFoundError then (Returned, [e], self') else (Raised e, [], self')
      | (Returned, self') \<Rightarrow> (Returned, [], self'))"

text \<open>The constructor.\<close>

definition init :: "pylib \<Rightarrow> filesystem \<Rightarrow> string option \<Rightarrow> outcome \<times> error list \<times> spectrum" where
  "init lib fs name =
     read lib fs name \<lparr>filename = name, metadata = [], header = [], data = empty_frame\<rparr>"

section \<open>MultipleJsonEncoders.default\<close>

text \<open>
  An encoder's \<open>default\<close> method returns a value or raises. The loop returns the first
  result that is not a TypeError, be it a value or another exception, and raises
  TypeError when every encoder raised TypeError.
\<close>

type_synonym ('o, 'j) encoder = "'o \<Rightarrow> error + 'j"

fun default :: "('o, 'j) encoder list \<Rightarrow> 'o \<Rightarrow> error + 'j" where
  "default [] obj = Inl TypeError"
| "default (encoder # encoders) obj =
     (case encoder obj of
        Inr v \<Rightarrow> Inr v
      | Inl e \<Rightarrow> if e = TypeError then default encoders obj else Inl e)"

text \<open>
  Modelled from the spec: \<open>JsonPintEncoder\<close> is not among the sources. Its \<open>default\<close>
  turns a physical quantity into the text of its magnitude and unit and declines any
  other value with TypeError.
\<close>

definition quantity_as_text :: "(pyval, string) encoder" where
  "quantity_as_text obj =
     (case obj of
        VQuantity (PyFloat m) u \<Rightarrow> Inr (m @ '' '' @ short_format u)
      | _ \<Rightarrow> Inl TypeError)"

text \<open>An encoder that gives the magnitude alone, to tell the order of a chain.\<close>

definition quantity_as_magnitude :: "(pyval, string) encoder" where
  "quantity_as_magnitude obj =
     (case obj of VQuantity (PyFloat m) u \<Rightarrow> Inr m | _ \<Rightarrow> Inl TypeError)"

section \<open>The ISO 8601 format\<close>

text \<open>
  The format of a timestamp with its UTC offset as ISO 8601 writes it, digit by digit:
  \<open>YYYY-MM-DDTHH:MM:SS\<close>, then a point and six digits of microseconds when there are
  any, then the sign of the offset and its hours and minutes as \<open>HH:MM\<close>, with \<open>:SS\<close>
  when the offset has seconds. The date rule is compared with it below.
\<close>

definition digits2 :: "nat \<Rightarrow> string" where
  "digits2 n = [digit_char (n div 10 mod 10), digit_char (n mod 10)]"

definition digits4 :: "nat \<Rightarrow> string" where
  "digits4 n = [digit_char (n div 1000 mod 10), digit_char (n div 100 mod 10),
                digit_char (n div 10 mod 10), digit_char (n mod 10)]"

definition digits6 :: "nat \<Rightarrow> string" where
  "digits6 n = [digit_char (n div 100000 mod 10), digit_char (n div 10000 mod 10),
                digit_char (n div 1000 mod 10), digit_char (n div 100 mod 10),
                digit_char (n div 10 mod 10), digit_char (n mod 10)]"

definition iso8601 :: "nat \<Rightarrow> nat \<Rightarrow> nat \<Rightarrow> nat \<Rightarrow> nat \<Rightarrow> nat \<Rightarrow> nat \<Rightarrow> int \<Rightarrow> string" where
  "iso8601 y m d hh mm ss us off =
     digits4 y @ ''-'' @ digits2 m @ ''-'' @ digits2 d @ ''T''
     @ digits2 hh @ '':'' @ digits2 mm @ '':'' @ digits2 ss
     @ (if us = 0 then [] else ''.'' @ digits6 us)
     @ (if off < 0 then ''-'' else ''+'')
     @ digits2 (nat \<bar>off\<bar> div 3600) @ '':'' @ digits2 (nat \<bar>off\<bar> mod 3600 div 60)
     @ (if nat \<bar>off\<bar> mod 60 = 0 then [] else '':'' @ digits2 (nat \<bar>off\<bar> mod 60))"

section \<open>The lines that give samples\<close>

text \<open>
  A line is blank when nothing is left of it without its trailing whitespace, and it is
  the marker when what is left is the marker text.
\<close>

definition blank :: "string \<Rightarrow> bool" where
  "blank raw \<longleftrightarrow> rstrip raw = []"

definition is_marker :: "string \<Rightarrow> bool" where
  "is_marker raw \<longleftrightarrow> rstrip raw = marker"

text \<open>The lines between the first marker line and the end of the file.\<close>

definition lines_after_marker :: "string list \<Rightarrow> string list" where
  "lines_after_marker ls = drop 1 (dropWhile (\<lambda>l. \<not> is_marker l) ls)"

text \<open>
  The lines that the loop reads as samples: the first line of the file is the
  description whatever it holds, the data block starts behind the first marker line
  after it, and there the blank lines and further marker lines give no sample.
\<close>

definition sample_lines :: "string list \<Rightarrow> string list" where
  "sample_lines ls = filter (\<lambda>l. \<not> blank l \<and> \<not> is_marker l) (lines_after_marker (drop 1 ls))"

section \<open>Inputs used in the examples\<close>

text \<open>
  A library that knows the time of day \<open>15:05:24\<close> and the zones \<open>GMT\<close> and \<open>UTC\<close>, and
  an instance that has not read anything.
\<close>

definition sample_lib :: pylib where
  "sample_lib =
     \<lparr>time_fromisoformat = (\<lambda>s. if s = ''15:05:24'' then Some (15, 5, 24, 0) else None),
      pytz_timezone = (\<lambda>s. if s = ''GMT'' \<or> s = ''UTC'' then Some 0 else None)\<rparr>"

definition fresh :: spectrum where
  "fresh = \<lparr>filename = None, metadata = [], header = [], data = empty_frame\<rparr>"

text \<open>A file system with one file, \<open>spectrum.txt\<close>, of the given lines.\<close>

definition one_file :: "string list \<Rightarrow> filesystem" where
  "one_file ls = (\<lambda>p. if p = ''spectrum.txt'' then Lines ls else NoSuchFile)"

text \<open>Files: with a blank line in the data block, without a marker, with a bad header line.\<close>

definition file_with_blank :: "string list" where
  "file_with_blank = [''title'', marker, ''1'' @ tab @ ''2'', [], ''3'' @ tab @ ''4'']"

definition file_without_marker :: "string list" where
  "file_without_marker = [''title'', [], ''XAxis mode: Wavelengths'']"

definition file_with_garbage :: "string list" where
  "file_with_garbage = [''title'', ''garbage'']"

text \<open>A file with a good header line and a bad one after it.\<close>

definition second_garbage :: "string list" where
  "second_garbage = [''second title'', ''Spectrometer: USB4000'', ''garbage'']"

text \<open>The instance after it has read the file with the blank line.\<close>

definition loaded :: spectrum where
  "loaded = snd (snd (read sample_lib (one_file file_with_blank) (Some ''spectrum.txt'') fresh))"

text \<open>Headers: with an x-axis mode and a date, and with dates of other shapes.\<close>

definition header_with_axis :: header where
  "header_with_axis = [(''Description'', ''title''), (''XAxis mode'', ''Wavelengths''),
                       (''Date'', ''Thu Feb 27 15:05:24 GMT 2020'')]"

definition header_with_odd_date :: header where
  "header_with_odd_date = [(''Description'', ''title''),
                           (''Date'', ''Xyz Feb 27 15:05:24 GMT 2020 extra'')]"

definition header_with_short_date :: header where
  "header_with_short_date = [(''Description'', ''title''), (''Date'', ''27 Feb 2020'')]"

definition header_with_unknown_zone :: header where
  "header_with_unknown_zone = [(''Description'', ''title''),
                               (''Date'', ''Thu Feb 27 15:05:24 Mars 2020'')]"

text \<open>A dwell time of half a second.\<close>

definition half_second :: pyval where
  "half_second = VQuantity (PyFloat ''0.5'') Second"

text \<open>A library that also knows a time with microseconds and a zone west of Greenwich.\<close>

definition late_lib :: pylib where
  "late_lib =
     \<lparr>time_fromisoformat =
        (\<lambda>s. if s = ''15:05:24'' then Some (15, 5, 24, 0)
             else if s = ''23:59:59.000007'' then Some (23, 59, 59, 7) else None),
      pytz_timezone =
        (\<lambda>s. if s = ''GMT'' \<or> s = ''UTC'' then Some 0
             else if s = ''Etc/GMT+1'' then Some (- 3600) else None)\<rparr>"

definition header_with_late_date :: header where
  "header_with_late_date = [(''Description'', ''title''),
                            (''Date'', ''Thu Dec 31 23:59:59.000007 Etc/GMT+1 2020'')]"

definition header_with_bad_day :: header where
  "header_with_bad_day = [(''Description'', ''title''),
                          (''Date'', ''Sun Feb 30 15:05:24 GMT 2020'')]"

text \<open>An encoder that raises an exception other than TypeError.\<close>

definition failing_encoder :: "(pyval, string) encoder" where
  "failing_encoder obj = Inl ValueError"

text \<open>A file whose sample starts with the separator 0x1C, which \<open>float\<close> does not accept.\<close>

definition file_with_bad_sample :: "string list" where
  "file_with_bad_sample = [''title'', marker, CHR 0x1C # ''1.5'' @ tab @ ''2.5'']"

section \<open>Properties of split\<close>

lemma split_from_nonempty: "split_from sep cur s \<noteq> []"
  by (induction sep cur s rule: split_from.induct) auto

lemma split_from_no_sep:
  "sep \<noteq> [] \<Longrightarrow> \<not> contains s sep \<Longrightarrow> split_from sep cur s = [cur @ s]"
  by (induction s arbitrary: cur) auto

lemma startswith_pair: "startswith s [a, b] \<longleftrightarrow> (\<exists>r. s = a # b # r)"
  by (cases s; cases "tl s") auto

text \<open>
  For a separator of two different characters, the part before its first occurrence
  is the first part of the split, and the split goes on behind the occurrence.
\<close>

lemma split_from_first:
  assumes "a \<noteq> b" "\<not> contains k [a, b]"
  shows "split_from [a, b] cur (k @ [a, b] @ v) = (cur @ k) # split_from [a, b] [] v"
  using assms(2)
proof (induction k arbitrary: cur)
  case Nil
  then show ?case by simp
next
  case (Cons c cs)
  have "\<not> startswith (c # cs @ [a, b] @ v) [a, b]"
    using Cons.prems assms(1) by (cases cs) auto
  then show ?case using Cons by simp
qed

lemma contains_first:
  assumes "contains s [a, b]"
  shows "\<exists>k v. s = k @ [a, b] @ v \<and> \<not> contains k [a, b]"
  using assms
proof (induction s)
  case Nil
  then show ?case by simp
next
  case (Cons c cs)
  show ?case
  proof (cases "startswith (c # cs) [a, b]")
    case True
    then obtain r where "c # cs = a # b # r" by (auto simp: startswith_pair)
    then have "c # cs = [] @ [a, b] @ r \<and> \<not> contains [] [a, b]" by simp
    then show ?thesis by blast
  next
    case False
    then have "contains cs [a, b]" using Cons.prems by auto
    then obtain k v where kv: "cs = k @ [a, b] @ v" "\<not> contains k [a, b]"
      using Cons.IH by blast
    have "\<not> startswith (c # k) [a, b]"
      using False kv(1) by (cases k) auto
    then have "\<not> contains (c # k) [a, b]" using kv(2) by simp
    moreover have "c # cs = (c # k) @ [a, b] @ v" using kv(1) by simp
    ultimately show ?thesis by blast
  qed
qed

lemma split_exactly_one:
  assumes "a \<noteq> b" "\<not> contains k [a, b]" "\<not> contains v [a, b]"
  shows "split_sep (k @ [a, b] @ v) [a, b] = [k, v]"
  using split_from_first [OF assms(1,2), of "[]" v] split_from_no_sep [OF _ assms(3), of "[]"]
  by (simp add: split_sep_def)

text \<open>The split has two parts exactly when the separator occurs exactly once.\<close>

lemma split_two_iff:
  assumes "a \<noteq> b"
  shows "length (split_sep s [a, b]) = 2 \<longleftrightarrow>
         (\<exists>k v. s = k @ [a, b] @ v \<and> \<not> contains k [a, b] \<and> \<not> contains v [a, b])"
proof
  assume len: "length (split_sep s [a, b]) = 2"
  have c: "contains s [a, b]"
  proof (rule ccontr)
    assume "\<not> contains s [a, b]"
    then have "split_sep s [a, b] = [s]"
      by (simp add: split_sep_def split_from_no_sep)
    then show False using len by simp
  qed
  then obtain k v where kv: "s = k @ [a, b] @ v" "\<not> contains k [a, b]"
    using contains_first by blast
  have sp: "split_sep s [a, b] = k # split_from [a, b] [] v"
    using split_from_first [OF assms kv(2), of "[]" v] kv(1) by (simp add: split_sep_def)
  have "\<not> contains v [a, b]"
  proof
    assume "contains v [a, b]"
    then obtain k' v' where kv': "v = k' @ [a, b] @ v'" "\<not> contains k' [a, b]"
      using contains_first by blast
    have "split_from [a, b] [] v = k' # split_from [a, b] [] v'"
      using split_from_first [OF assms kv'(2), of "[]" v'] kv'(1) by simp
    then have "length (split_sep s [a, b]) \<ge> 3"
      using sp split_from_nonempty [of "[a, b]" "[]" v']
      by (cases "split_from [a, b] [] v'") auto
    then show False using len by simp
  qed
  then show "\<exists>k v. s = k @ [a, b] @ v \<and> \<not> contains k [a, b] \<and> \<not> contains v [a, b]"
    using kv by blast
next
  assume "\<exists>k v. s = k @ [a, b] @ v \<and> \<not> contains k [a, b] \<and> \<not> contains v [a, b]"
  then obtain k v where "s = k @ [a, b] @ v" "\<not> contains k [a, b]" "\<not> contains v [a, b]"
    by blast
  then show "length (split_sep s [a, b]) = 2"
    using split_exactly_one [OF assms] by simp
qed

section \<open>Header lines\<close>

lemma step_header_line:
  assumes "\<not> first_line st" "\<not> data_block st" "rstrip raw \<noteq> []" "rstrip raw \<noteq> marker"
  shows "step raw st = header_line (rstrip raw) st"
  using assms by (simp add: step_def)

text \<open>
  Claim C1, as the code has it. A header line (a line after the first and before the
  marker that is not blank) is cut at every occurrence of the separator \<open>": "\<close>, not
  only at the first. The line is accepted exactly when that gives two parts, that is
  when the separator occurs exactly once in the line without its trailing whitespace;
  the part before it is then the key and the part behind it the value. Every other
  line raises \<open>Exception('Something wrong here')\<close> and leaves the header as it was: so
  does a line whose value contains the separator.
\<close>

theorem header_line_split_at_every_separator:
  assumes "\<not> first_line st" "\<not> data_block st" "rstrip raw \<noteq> []" "rstrip raw \<noteq> marker"
  shows "(fst (step raw st) = None \<longleftrightarrow>
            (\<exists>k v. rstrip raw = k @ '': '' @ v \<and> \<not> contains k '': '' \<and> \<not> contains v '': ''))
       \<and> (fst (step raw st) \<noteq> None \<longrightarrow>
            step raw st = (Some (Exception ''Something wrong here''), st))
       \<and> (\<forall>k v. rstrip raw = k @ '': '' @ v \<and> \<not> contains k '': '' \<and> \<not> contains v '': '' \<longrightarrow>
            step raw st = (None, st\<lparr>l_header := AList.update k v (l_header st)\<rparr>))"
proof -
  have ne: "CHR '':'' \<noteq> CHR '' ''" by simp
  have s: "step raw st = header_line (rstrip raw) st"
    using assms by (rule step_header_line)
  have a: "fst (step raw st) = None \<longleftrightarrow> length (split_sep (rstrip raw) '': '') = 2"
    by (simp add: s header_line_def Let_def)
  have b: "fst (step raw st) \<noteq> None \<longrightarrow>
             step raw st = (Some (Exception ''Something wrong here''), st)"
    by (simp add: s header_line_def Let_def)
  have c: "step raw st = (None, st\<lparr>l_header := AList.update k v (l_header st)\<rparr>)"
    if "rstrip raw = k @ '': '' @ v" "\<not> contains k '': ''" "\<not> contains v '': ''" for k v
  proof -
    have "split_sep (rstrip raw) '': '' = [k, v]"
      using split_exactly_one [OF ne that(2,3)] that(1) by simp
    then show ?thesis by (simp add: s header_line_def Let_def)
  qed
  show ?thesis using a b c split_two_iff [OF ne, of "rstrip raw"] by blast
qed

theorem header_line_split_at_every_separator_witness:
  "step ''XAxis mode: Wavelengths  '' (loop_init\<lparr>first_line := False\<rparr>)
     = (None, loop_init\<lparr>first_line := False,
                         l_header := [(''XAxis mode'', ''Wavelengths'')]\<rparr>)"
proof -
  let ?st = "loop_init\<lparr>first_line := False\<rparr>"
  let ?raw = "''XAxis mode: Wavelengths  ''"
  have r: "rstrip ?raw = ''XAxis mode'' @ '': '' @ ''Wavelengths''"
    by (simp add: rstrip_def isspace_def)
  have h: "\<not> first_line ?st" "\<not> data_block ?st" "rstrip ?raw \<noteq> []" "rstrip ?raw \<noteq> marker"
    by (simp_all add: r loop_init_def marker_def)
  have k: "\<not> contains ''XAxis mode'' '': ''" "\<not> contains ''Wavelengths'' '': ''"
    by simp_all
  show ?thesis
    using header_line_split_at_every_separator [OF h] r k
    by (simp add: loop_init_def)
qed

text \<open>
  The line \<open>Note: a: b\<close> has the key \<open>Note\<close> before the first separator, and the code
  rejects it.
\<close>

theorem value_with_separator_is_rejected:
  "''Note: a: b'' = ''Note'' @ '': '' @ ''a: b'' \<and> \<not> contains ''Note'' '': ''
   \<and> run_lines [''title'', ''Note: a: b''] loop_init
       = (Some (Exception ''Something wrong here''),
          loop_init\<lparr>first_line := False, l_header := [(''Description'', ''title'')]\<rparr>)"
  by (simp add: step_def header_line_def split_sep_def rstrip_def isspace_def marker_def
      loop_init_def)

section \<open>One line of the loop\<close>

lemma data_line_result:
  "data_line line st = (r, st') \<Longrightarrow>
     l_header st' = l_header st \<and> first_line st' = first_line st \<and> data_block st' = data_block st
     \<and> (case r of
           None \<Rightarrow> (\<exists>fx fy. x_values st' = x_values st @ [fx] \<and> y_values st' = y_values st @ [fy])
         | Some e \<Rightarrow> e = ValueError \<and> y_values st' = y_values st)"
  by (auto simp: data_line_def py_float_def Let_def
           split: list.splits sum.splits option.splits if_splits)

lemma header_line_result:
  "header_line line st = (r, st') \<Longrightarrow>
     x_values st' = x_values st \<and> y_values st' = y_values st
     \<and> first_line st' = first_line st \<and> data_block st' = data_block st
     \<and> (case r of
           None \<Rightarrow> length (split_sep line '': '') = 2
         | Some e \<Rightarrow> e = Exception ''Something wrong here'' \<and> st' = st
                     \<and> length (split_sep line '': '') \<noteq> 2)"
  by (auto simp: header_line_def Let_def split: if_splits)

lemma step_first:
  "first_line st \<Longrightarrow>
   step raw st = (None, st\<lparr>l_header := AList.update ''Description'' (rstrip raw) (l_header st),
                           first_line := False\<rparr>)"
  by (simp add: step_def)

lemma step_blank: "\<not> first_line st \<Longrightarrow> blank raw \<Longrightarrow> step raw st = (None, st)"
  by (simp add: step_def blank_def)

lemma step_marker:
  "\<not> first_line st \<Longrightarrow> is_marker raw \<Longrightarrow> step raw st = (None, st\<lparr>data_block := True\<rparr>)"
  by (simp add: step_def is_marker_def marker_def)

lemma step_data:
  "\<not> first_line st \<Longrightarrow> \<not> blank raw \<Longrightarrow> \<not> is_marker raw \<Longrightarrow> data_block st \<Longrightarrow>
   step raw st = data_line (rstrip raw) st"
  by (simp add: step_def is_marker_def blank_def)

lemma step_header:
  "\<not> first_line st \<Longrightarrow> \<not> blank raw \<Longrightarrow> \<not> is_marker raw \<Longrightarrow> \<not> data_block st \<Longrightarrow>
   step raw st = header_line (rstrip raw) st"
  by (simp add: step_def is_marker_def blank_def)

lemma step_cases:
  assumes "\<not> first_line st"
  shows "(blank raw \<and> step raw st = (None, st))
       \<or> (is_marker raw \<and> step raw st = (None, st\<lparr>data_block := True\<rparr>))
       \<or> (\<not> blank raw \<and> \<not> is_marker raw \<and> data_block st
            \<and> step raw st = data_line (rstrip raw) st)
       \<or> (\<not> blank raw \<and> \<not> is_marker raw \<and> \<not> data_block st
            \<and> step raw st = header_line (rstrip raw) st)"
  using assms step_blank step_marker step_data step_header by blast

lemma step_not_first:
  assumes "\<not> first_line st" "step raw st = (r, st')"
  shows "\<not> first_line st'"
  using step_cases [OF assms(1), of raw]
proof (elim disjE conjE, goal_cases)
  case 1 then show ?case using assms by simp
next
  case 2 then show ?case using assms by auto
next
  case 3 then show ?case using assms data_line_result [of "rstrip raw" st r st'] by simp
next
  case 4 then show ?case using assms header_line_result [of "rstrip raw" st r st'] by simp
qed

lemma step_counts:
  assumes "\<not> first_line st" "step raw st = (None, st')"
  shows "data_block st' = (data_block st \<or> is_marker raw)
       \<and> length (x_values st') = length (x_values st)
            + (if data_block st \<and> \<not> blank raw \<and> \<not> is_marker raw then 1 else 0)
       \<and> length (y_values st') = length (y_values st)
            + (if data_block st \<and> \<not> blank raw \<and> \<not> is_marker raw then 1 else 0)"
  using step_cases [OF assms(1), of raw]
proof (elim disjE conjE, goal_cases)
  case 1 then show ?case using assms by (auto simp: blank_def is_marker_def marker_def)
next
  case 2 then show ?case using assms by auto
next
  case 3 then show ?case using assms data_line_result [of "rstrip raw" st None st'] by auto
next
  case 4 then show ?case using assms header_line_result [of "rstrip raw" st None st'] by auto
qed

lemma step_error:
  assumes "\<not> first_line st" "step raw st = (Some e, st')"
  shows "l_header st' = l_header st \<and> (e = ValueError \<or> e = Exception ''Something wrong here'')"
  using step_cases [OF assms(1), of raw]
proof (elim disjE conjE, goal_cases)
  case 1 then show ?case using assms by simp
next
  case 2 then show ?case using assms by simp
next
  case 3 then show ?case using assms data_line_result [of "rstrip raw" st "Some e" st'] by auto
next
  case 4 then show ?case using assms header_line_result [of "rstrip raw" st "Some e" st'] by auto
qed

section \<open>The whole loop\<close>

lemma run_lines_append:
  "run_lines (pre @ post) st =
     (case run_lines pre st of (Some e, st') \<Rightarrow> (Some e, st') | (None, st') \<Rightarrow> run_lines post st')"
  by (induction pre arbitrary: st) (auto split: prod.splits option.splits)

lemma run_lines_not_first:
  "\<not> first_line st \<Longrightarrow> run_lines ls st = (r, st') \<Longrightarrow> \<not> first_line st'"
proof (induction ls arbitrary: st)
  case Nil then show ?case by simp
next
  case (Cons l ls)
  obtain r1 st1 where s: "step l st = (r1, st1)" by (cases "step l st")
  then have "\<not> first_line st1" using Cons.prems(1) step_not_first by blast
  then show ?case using Cons s by (cases r1) auto
qed

lemma run_lines_started:
  assumes "ls \<noteq> []" "run_lines ls st = (r, st')"
  shows "\<not> first_line st'"
proof -
  obtain l rest where ls: "ls = l # rest" using assms(1) by (cases ls) auto
  obtain r1 st1 where s: "step l st = (r1, st1)" by (cases "step l st")
  have "\<not> first_line st1"
    using s step_first [of st l] step_not_first [of st l r1 st1] by (cases "first_line st") auto
  then show ?thesis using assms(2) ls s run_lines_not_first [of st1 rest r st'] by (cases r1) auto
qed

lemma run_lines_counts:
  "\<not> first_line st \<Longrightarrow> run_lines ls st = (None, st') \<Longrightarrow>
     length (x_values st') = length (x_values st)
        + length (filter (\<lambda>l. \<not> blank l \<and> \<not> is_marker l)
                    (if data_block st then ls else lines_after_marker ls))
   \<and> length (y_values st') = length (y_values st)
        + length (filter (\<lambda>l. \<not> blank l \<and> \<not> is_marker l)
                    (if data_block st then ls else lines_after_marker ls))"
proof (induction ls arbitrary: st)
  case Nil then show ?case by (simp add: lines_after_marker_def)
next
  case (Cons l ls)
  obtain r1 st1 where s: "step l st = (r1, st1)" by (cases "step l st")
  have r1: "r1 = None" using Cons.prems(2) s by (cases r1) auto
  have n: "\<not> first_line st1" using Cons.prems(1) s step_not_first by blast
  have rest: "run_lines ls st1 = (None, st')" using Cons.prems(2) s r1 by simp
  note c = step_counts [OF Cons.prems(1) s [unfolded r1]]
  note ih = Cons.IH [OF n rest]
  show ?case
  proof (cases "data_block st")
    case True
    then show ?thesis using c ih by auto
  next
    case False
    then show ?thesis using c ih by (auto simp: lines_after_marker_def)
  qed
qed

lemma run_lines_error_prefix:
  "run_lines ls st = (Some e, st') \<Longrightarrow>
     \<exists>pre l post st0. ls = pre @ l # post \<and> run_lines pre st = (None, st0)
        \<and> step l st0 = (Some e, st')"
proof (induction ls arbitrary: st)
  case Nil then show ?case by simp
next
  case (Cons l ls)
  obtain r1 st1 where s: "step l st = (r1, st1)" by (cases "step l st")
  show ?case
  proof (cases r1)
    case None
    then have "run_lines ls st1 = (Some e, st')" using Cons.prems s by simp
    then obtain pre l' post st0 where p: "ls = pre @ l' # post" "run_lines pre st1 = (None, st0)"
        "step l' st0 = (Some e, st')"
      using Cons.IH by blast
    have "l # ls = (l # pre) @ l' # post \<and> run_lines (l # pre) st = (None, st0)"
      using p s None by simp
    then show ?thesis using p(3) by blast
  next
    case (Some e1)
    then have "e1 = e" "st1 = st'" using Cons.prems s by auto
    then have "l # ls = [] @ l # ls \<and> run_lines [] st = (None, st) \<and> step l st = (Some e, st')"
      using s Some by simp
    then show ?thesis by blast
  qed
qed

lemma no_marker_run:
  "\<not> first_line st \<Longrightarrow> \<not> data_block st \<Longrightarrow> \<forall>l \<in> set ls. \<not> is_marker l \<Longrightarrow>
     x_values (snd (run_lines ls st)) = x_values st
   \<and> y_values (snd (run_lines ls st)) = y_values st
   \<and> (fst (run_lines ls st) = None \<longleftrightarrow>
        (\<forall>l \<in> set ls. blank l \<or> length (split_sep (rstrip l) '': '') = 2))
   \<and> (fst (run_lines ls st) = None
        \<or> fst (run_lines ls st) = Some (Exception ''Something wrong here''))"
proof (induction ls arbitrary: st)
  case Nil then show ?case by simp
next
  case (Cons l ls)
  have nm: "\<not> is_marker l" and rest: "\<forall>l \<in> set ls. \<not> is_marker l" using Cons.prems(3) by auto
  show ?case
  proof (cases "blank l")
    case True
    then have "step l st = (None, st)" using Cons.prems(1) step_blank by blast
    then show ?thesis using Cons.IH [OF Cons.prems(1,2) rest] True by auto
  next
    case False
    then have s: "step l st = header_line (rstrip l) st"
      using Cons.prems(1,2) nm step_header by blast
    obtain r1 st1 where h: "header_line (rstrip l) st = (r1, st1)"
      by (cases "header_line (rstrip l) st")
    note hr = header_line_result [OF h]
    show ?thesis
    proof (cases r1)
      case None
      then have a: "\<not> first_line st1" "\<not> data_block st1" using hr Cons.prems(1,2) by auto
      show ?thesis using Cons.IH [OF a rest] s h None hr False by auto
    next
      case (Some e)
      then show ?thesis using s h hr False by auto
    qed
  qed
qed

lemma file_with_blank_run:
  "run_lines file_with_blank loop_init
     = (None, \<lparr>l_header = [(''Description'', ''title'')],
               x_values = [PyFloat ''1'', PyFloat ''3''], y_values = [PyFloat ''2'', PyFloat ''4''],
               first_line = False, data_block = True\<rparr>)"
  by code_simp

lemma file_with_blank_read:
  "fst (read sample_lib (one_file file_with_blank) (Some ''spectrum.txt'') fresh) = Returned
   \<and> fst (snd (read sample_lib (one_file file_with_blank) (Some ''spectrum.txt'') fresh)) = []"
  by code_simp

section \<open>Files without the marker\<close>

text \<open>
  Claim C2, as the code has it. In a file where no line is the marker, the loop over
  the lines never reaches the data block: the x and y lists stay empty, no data line
  can fail, and the loop ends without an exception exactly when every line after the
  first is blank or splits in two at \<open>": "\<close>; otherwise it raises the exception of the
  malformed header line.
\<close>

theorem no_marker_no_samples:
  assumes "\<forall>l \<in> set ls. rstrip l \<noteq> marker"
  shows "x_values (snd (run_lines ls loop_init)) = []
       \<and> y_values (snd (run_lines ls loop_init)) = []
       \<and> (fst (run_lines ls loop_init) = None \<longleftrightarrow>
            (\<forall>l \<in> set (drop 1 ls). rstrip l = [] \<or> length (split_sep (rstrip l) '': '') = 2))
       \<and> (fst (run_lines ls loop_init) = None
            \<or> fst (run_lines ls loop_init) = Some (Exception ''Something wrong here''))"
proof (cases ls)
  case Nil
  then show ?thesis by (simp add: loop_init_def)
next
  case (Cons l rest)
  let ?st = "loop_init\<lparr>l_header := AList.update ''Description'' (rstrip l) (l_header loop_init),
                        first_line := False\<rparr>"
  have s: "step l loop_init = (None, ?st)"
    by (rule step_first) (simp add: loop_init_def)
  have a: "\<not> first_line ?st" "\<not> data_block ?st" by (simp_all add: loop_init_def)
  have m: "\<forall>l \<in> set rest. \<not> is_marker l" using assms Cons by (simp add: is_marker_def)
  have x: "x_values ?st = []" "y_values ?st = []" by (simp_all add: loop_init_def)
  show ?thesis using no_marker_run [OF a m] s Cons x by (auto simp: blank_def)
qed

theorem no_marker_no_samples_witness:
  "fst (run_lines file_without_marker loop_init) = None
   \<and> x_values (snd (run_lines file_without_marker loop_init)) = []
   \<and> y_values (snd (run_lines file_without_marker loop_init)) = []"
proof -
  have h: "\<forall>l \<in> set file_without_marker. rstrip l \<noteq> marker"
    by (simp add: file_without_marker_def rstrip_def isspace_def marker_def)
  have w: "\<forall>l \<in> set (drop 1 file_without_marker).
             rstrip l = [] \<or> length (split_sep (rstrip l) '': '') = 2"
    by (simp add: file_without_marker_def rstrip_def isspace_def split_sep_def)
  show ?thesis using no_marker_no_samples [OF h] w by simp
qed

text \<open>
  Two files without the marker. In the first the second line is not a header line: the
  loop raises, and so does \<open>read\<close>. In the second every line is well formed: the loop
  ends with empty lists, and \<open>read\<close> raises IndexError when it takes the first x value.
\<close>

theorem files_without_marker_raise:
  "rstrip ''title'' \<noteq> marker \<and> rstrip ''garbage'' \<noteq> marker
   \<and> fst (run_lines file_with_garbage loop_init) = Some (Exception ''Something wrong here'')
   \<and> fst (read sample_lib (one_file file_with_garbage) (Some ''spectrum.txt'') fresh)
       = Raised (Exception ''Something wrong here'')
   \<and> rstrip [] \<noteq> marker \<and> rstrip ''XAxis mode: Wavelengths'' \<noteq> marker
   \<and> fst (run_lines file_without_marker loop_init) = None
   \<and> fst (read sample_lib (one_file file_without_marker) (Some ''spectrum.txt'') fresh)
       = Raised IndexError"
  by code_simp

section \<open>Blank lines\<close>

text \<open>
  Claim C10. A blank line anywhere after the first line of the file is skipped: the
  loop, and with it \<open>read\<close>, gives the same result as on the file without that line.
  A blank line of the data block is such a line, so it adds no sample and raises
  nothing.
\<close>

theorem blank_line_is_skipped:
  assumes "pre \<noteq> []" "rstrip l = []"
  shows "run_lines (pre @ l # post) st = run_lines (pre @ post) st
       \<and> read lib (fs(p := Lines (pre @ l # post))) name self
           = read lib (fs(p := Lines (pre @ post))) name self"
proof -
  have r: "run_lines (pre @ l # post) st0 = run_lines (pre @ post) st0" for st0
  proof -
    obtain r1 st1 where p: "run_lines pre st0 = (r1, st1)" by (cases "run_lines pre st0")
    have "\<not> first_line st1" using run_lines_started [OF assms(1) p] .
    then have "step l st1 = (None, st1)" using assms(2) step_blank by (simp add: blank_def)
    then show ?thesis by (simp add: run_lines_append p split: option.splits)
  qed
  show ?thesis
    by (simp add: r read_def read_body_def Let_def split: option.splits)
qed

theorem blank_line_is_skipped_witness:
  "run_lines ([''title'', marker, ''1'' @ tab @ ''2''] @ ''  '' # [''3'' @ tab @ ''4'']) loop_init
     = run_lines ([''title'', marker, ''1'' @ tab @ ''2''] @ [''3'' @ tab @ ''4'']) loop_init
   \<and> read sample_lib
        ((one_file [])(''spectrum.txt'' :=
           Lines ([''title'', marker, ''1'' @ tab @ ''2''] @ ''  '' # [''3'' @ tab @ ''4''])))
        (Some ''spectrum.txt'') fresh
     = read sample_lib
        ((one_file [])(''spectrum.txt'' :=
           Lines ([''title'', marker, ''1'' @ tab @ ''2''] @ [''3'' @ tab @ ''4''])))
        (Some ''spectrum.txt'') fresh"
proof -
  have a: "[''title'', marker, ''1'' @ tab @ ''2''] \<noteq> []" by simp
  have b: "rstrip ''  '' = []" by (simp add: rstrip_def isspace_def)
  show ?thesis using blank_line_is_skipped [OF a b] by blast
qed

section \<open>The number of samples\<close>

text \<open>
  Claim C5, as the code has it. When \<open>read\<close> of a file that opens returns and has
  printed nothing, the rows of the data frame pair the x and y lists of the loop, the
  two lists have the same length, and that length is the number of lines after the
  marker that are neither blank nor marker lines again (the marker being the first
  marker line after the first line of the file).
\<close>

theorem samples_are_nonblank_lines_after_marker:
  assumes "fs path = Lines ls" "path \<noteq> []"
    and "read lib fs (Some path) self = (Returned, [], self')"
  shows "\<exists>st. run_lines ls loop_init = (None, st)
            \<and> rows (data self') = zip (x_values st) (y_values st)
            \<and> length (x_values st) = length (y_values st)
            \<and> length (x_values st) = length (sample_lines ls)"
proof -
  obtain r st where rl: "run_lines ls loop_init = (r, st)" by (cases "run_lines ls loop_init")
  have body: "read_body lib fs (Some path) self = (Returned, self')"
    using assms(3) by (auto simp: read_def split: prod.splits outcome.splits if_splits)
  have rn: "r = None"
    using body assms(1,2) rl by (cases r) (auto simp: read_body_def Let_def)
  have fin: "finish lib (x_values st) (y_values st)
               (self\<lparr>filename := Some path, metadata := [], header := [], data := empty_frame,
                     header := l_header st\<rparr>) = (Returned, self')"
    using body assms(1,2) rl rn by (simp add: read_body_def Let_def)
  have rows: "rows (data self') = zip (x_values st) (y_values st)"
    using fin
    by (auto simp: finish_def Let_def split: prod.splits option.splits sum.splits list.splits)
  have len: "length (x_values st) = length (sample_lines ls)
           \<and> length (y_values st) = length (sample_lines ls)"
  proof (cases ls)
    case Nil
    then show ?thesis using rl rn by (auto simp: loop_init_def sample_lines_def lines_after_marker_def)
  next
    case (Cons l rest)
    let ?st = "loop_init\<lparr>l_header := AList.update ''Description'' (rstrip l) (l_header loop_init),
                          first_line := False\<rparr>"
    have s: "step l loop_init = (None, ?st)"
      by (rule step_first) (simp add: loop_init_def)
    have a: "\<not> first_line ?st" by (simp add: loop_init_def)
    have "run_lines rest ?st = (None, st)" using rl rn Cons s by simp
    from run_lines_counts [OF a this] show ?thesis
      using Cons by (simp add: loop_init_def sample_lines_def)
  qed
  show ?thesis using rl rn rows len by simp
qed

theorem samples_are_nonblank_lines_after_marker_witness:
  "fst (read sample_lib (one_file file_with_blank) (Some ''spectrum.txt'') fresh) = Returned
   \<and> length (rows (data (snd (snd
        (read sample_lib (one_file file_with_blank) (Some ''spectrum.txt'') fresh)))))
     = length (sample_lines file_with_blank)"
proof -
  let ?r = "read sample_lib (one_file file_with_blank) (Some ''spectrum.txt'') fresh"
  have f: "one_file file_with_blank ''spectrum.txt'' = Lines file_with_blank"
    by (simp add: one_file_def)
  have p: "''spectrum.txt'' \<noteq> []" by simp
  have r: "?r = (Returned, [], snd (snd ?r))"
    using file_with_blank_read by (metis prod.collapse)
  from samples_are_nonblank_lines_after_marker [OF f p r]
  show ?thesis using file_with_blank_read by auto
qed

text \<open>
  A file with three lines between the marker and its end, one of them blank: it is
  read without error and has two samples.
\<close>

theorem blank_data_line_is_not_counted:
  "fst (read sample_lib (one_file file_with_blank) (Some ''spectrum.txt'') fresh) = Returned
   \<and> length (rows (data (snd (snd
        (read sample_lib (one_file file_with_blank) (Some ''spectrum.txt'') fresh))))) = 2
   \<and> length (lines_after_marker file_with_blank) = 3"
  by code_simp

section \<open>A parse that fails\<close>

lemma step_error_not_first: "step raw st = (Some e, st') \<Longrightarrow> \<not> first_line st"
  by (auto simp: step_def)

text \<open>
  Claim C3, as the code has it. When the loop over the lines raises (on a malformed
  header line or a malformed data line), \<open>read\<close> raises the same exception and prints
  nothing; the file name is the new one, the metadata and the data are empty, and the
  header holds the description and the pairs of the lines before the failing line,
  which the loop had written already. Nothing of the header, metadata and data of
  before the call is left.
\<close>

theorem failed_parse_resets_all_but_header:
  assumes "fs path = Lines ls" "path \<noteq> []" "run_lines ls loop_init = (Some e, st)"
  shows "read lib fs (Some path) self
           = (Raised e, [], \<lparr>filename = Some path, metadata = [], header = l_header st,
                              data = empty_frame\<rparr>)
       \<and> (\<exists>pre l post st0. ls = pre @ l # post \<and> run_lines pre loop_init = (None, st0)
             \<and> fst (step l st0) = Some e \<and> l_header st = l_header st0)
       \<and> (e = ValueError \<or> e = Exception ''Something wrong here'')"
proof -
  obtain pre l post st0 where p: "ls = pre @ l # post" "run_lines pre loop_init = (None, st0)"
      "step l st0 = (Some e, st)"
    using run_lines_error_prefix [OF assms(3)] by blast
  have nf: "\<not> first_line st0" using p(3) by (rule step_error_not_first)
  note se = step_error [OF nf p(3)]
  have e: "e \<noteq> FileNotFoundError" using se by auto
  have "read lib fs (Some path) self
           = (Raised e, [], \<lparr>filename = Some path, metadata = [], header = l_header st,
                              data = empty_frame\<rparr>)"
    using assms e by (simp add: read_def read_body_def Let_def)
  moreover have "\<exists>pre l post st0. ls = pre @ l # post \<and> run_lines pre loop_init = (None, st0)
             \<and> fst (step l st0) = Some e \<and> l_header st = l_header st0"
  proof -
    have "ls = pre @ l # post \<and> run_lines pre loop_init = (None, st0)
             \<and> fst (step l st0) = Some e \<and> l_header st = l_header st0"
      using p se by simp
    then show ?thesis by blast
  qed
  ultimately show ?thesis using se by blast
qed

theorem failed_parse_resets_all_but_header_witness:
  "read sample_lib (one_file second_garbage) (Some ''spectrum.txt'') loaded
     = (Raised (Exception ''Something wrong here''), [],
        \<lparr>filename = Some ''spectrum.txt'', metadata = [],
         header = [(''Description'', ''second title''), (''Spectrometer'', ''USB4000'')],
         data = empty_frame\<rparr>)
   \<and> read sample_lib (one_file file_with_bad_sample) (Some ''spectrum.txt'') loaded
     = (Raised ValueError, [],
        \<lparr>filename = Some ''spectrum.txt'', metadata = [],
         header = [(''Description'', ''title'')], data = empty_frame\<rparr>)"
proof -
  have p: "''spectrum.txt'' \<noteq> []" by simp
  have f1: "one_file second_garbage ''spectrum.txt'' = Lines second_garbage"
    by (simp add: one_file_def)
  have r1: "run_lines second_garbage loop_init
             = (Some (Exception ''Something wrong here''),
                \<lparr>l_header = [(''Description'', ''second title''), (''Spectrometer'', ''USB4000'')],
                 x_values = [], y_values = [], first_line = False, data_block = False\<rparr>)"
    by code_simp
  have f2: "one_file file_with_bad_sample ''spectrum.txt'' = Lines file_with_bad_sample"
    by (simp add: one_file_def)
  have r2: "run_lines file_with_bad_sample loop_init
             = (Some ValueError,
                \<lparr>l_header = [(''Description'', ''title'')],
                 x_values = [], y_values = [], first_line = False, data_block = True\<rparr>)"
    by code_simp
  show ?thesis
    using failed_parse_resets_all_but_header
            [where fs = "one_file second_garbage" and lib = sample_lib and self = loaded, OF f1 p r1]
      failed_parse_resets_all_but_header
            [where fs = "one_file file_with_bad_sample" and lib = sample_lib and self = loaded,
             OF f2 p r2]
    by simp
qed

text \<open>
  After a read that succeeded, the read of a file with a bad third line raises and
  leaves a header with the two lines before it next to empty metadata: the instance is
  neither as it was nor empty.
\<close>

theorem failed_read_mixes_old_and_new:
  "fst (read sample_lib (one_file second_garbage) (Some ''spectrum.txt'') loaded)
     = Raised (Exception ''Something wrong here'')
   \<and> header (snd (snd (read sample_lib (one_file second_garbage) (Some ''spectrum.txt'') loaded)))
     = [(''Description'', ''second title''), (''Spectrometer'', ''USB4000'')]
   \<and> metadata (snd (snd (read sample_lib (one_file second_garbage) (Some ''spectrum.txt'') loaded)))
     = []
   \<and> header loaded = [(''Description'', ''title'')]
   \<and> metadata loaded \<noteq> []"
  by code_simp

section \<open>A file that does not exist\<close>

text \<open>
  Claim C4 on a path that does not exist: \<open>read\<close> and the constructor return normally
  after printing the FileNotFoundError, and the instance has the new file name with
  an empty header, empty metadata and an empty data frame.
\<close>

theorem missing_file_is_printed_not_raised:
  "read sample_lib (one_file file_with_blank) (Some ''missing.txt'') loaded
     = (Returned, [FileNotFoundError],
        \<lparr>filename = Some ''missing.txt'', metadata = [], header = [], data = empty_frame\<rparr>)
   \<and> init sample_lib (one_file file_with_blank) (Some ''missing.txt'')
     = (Returned, [FileNotFoundError],
        \<lparr>filename = Some ''missing.txt'', metadata = [], header = [], data = empty_frame\<rparr>)"
  by code_simp

section \<open>The unit label builder with a value\<close>

text \<open>
  Claim C9 on the value 0: the test \<open>if value:\<close> takes it for no value, and the result
  has neither \<open>value\<close> nor \<open>quantity\<close>, whereas the value 280 gives both.
\<close>

theorem zero_value_gives_no_quantity:
  "unitmanager ''wavelength'' (Some Nanometer) (Some 0)
     = [(''name'', VStr ''wavelength''), (''unit'', VStr ''nm''),
        (''label'', VStr ''wavelength (nm)'')]
   \<and> unitmanager ''wavelength'' (Some Nanometer) (Some 280)
     = [(''name'', VStr ''wavelength''), (''unit'', VStr ''nm''),
        (''label'', VStr ''wavelength (nm)''), (''value'', VInt 280),
        (''quantity'', VStr ''280 nm'')]"
  by code_simp

section \<open>The statements of the metadata\<close>

lemma run_statements_append:
  "run_statements (fs @ gs) md =
     (case run_statements fs md of
        (Some e, md') \<Rightarrow> (Some e, md')
      | (None, md') \<Rightarrow> run_statements gs md')"
  by (induction fs arbitrary: md) (auto split: prod.splits option.splits)

lemma run_statements_preserve:
  "\<forall>f \<in> set fs. \<forall>m r m'. f m = (r, m') \<longrightarrow> map_of m' k = map_of m k \<Longrightarrow>
   run_statements fs md = (r, md') \<Longrightarrow> map_of md' k = map_of md k"
proof (induction fs arbitrary: md)
  case Nil then show ?case by simp
next
  case (Cons f fs)
  obtain r1 m1 where f: "f md = (r1, m1)" by (cases "f md")
  have k1: "map_of m1 k = map_of md k" using Cons.prems(1) f by simp
  have rest: "\<forall>f \<in> set fs. \<forall>m r m'. f m = (r, m') \<longrightarrow> map_of m' k = map_of m k"
    using Cons.prems(1) by simp
  show ?case
  proof (cases r1)
    case None
    then have "run_statements fs m1 = (r, md')" using Cons.prems(2) f by simp
    then have "map_of md' k = map_of m1 k" using Cons.IH [OF rest] by blast
    then show ?thesis using k1 by simp
  next
    case (Some e)
    then show ?thesis using Cons.prems(2) f k1 by simp
  qed
qed

lemma assign_other: "k \<noteq> k' \<Longrightarrow> assign k' v m = (r, m') \<Longrightarrow> map_of m' k = map_of m k"
  by (auto simp: assign_def update_conv')

lemma from_header_other:
  "k \<noteq> target \<Longrightarrow> from_header hdr key target conv m = (r, m') \<Longrightarrow> map_of m' k = map_of m k"
  by (auto simp: from_header_def update_conv' split: option.splits sum.splits)

lemma acquisition_date_other:
  "k \<noteq> ''acquisition-date'' \<Longrightarrow> acquisition_date lib hdr m = (r, m') \<Longrightarrow>
   map_of m' k = map_of m k"
  by (auto simp: acquisition_date_def update_conv' split: option.splits sum.splits)

lemma unitmanager_no_value:
  "unitmanager label (Some u) None =
     [(''name'', VStr label), (''unit'', VStr (short_format u)),
      (''label'', VStr (if short_format u = [] then label
                        else label @ '' ('' @ short_format u @ '')''))]"
  by (simp add: unitmanager_def Let_def)

lemma extract_metadata_split:
  "extract_metadata lib hdr =
     run_statements (statements_before_abscissa hdr
       @ [assign ''abscissa'' (VDict (x_label hdr))]
       @ [assign ''ordinate'' (VDict y_label),
          from_header hdr ''Number of Pixels in Spectrum'' ''number-of-data-points'' int_value]
       @ [acquisition_date lib hdr])"
  by (simp add: extract_metadata_def statements_before_abscissa_def)

lemma extract_metadata_abscissa:
  assumes "extract_metadata lib hdr md0 = (None, md)"
  shows "map_of md ''abscissa'' = Some (VDict (x_label hdr))"
proof -
  let ?post = "[assign ''ordinate'' (VDict y_label),
          from_header hdr ''Number of Pixels in Spectrum'' ''number-of-data-points'' int_value]
       @ [acquisition_date lib hdr]"
  obtain r1 m1 where b: "run_statements (statements_before_abscissa hdr) md0 = (r1, m1)"
    by (cases "run_statements (statements_before_abscissa hdr) md0")
  have r1: "r1 = None"
    using assms b by (cases r1) (simp_all add: extract_metadata_split run_statements_append)
  have post: "run_statements ?post (AList.update ''abscissa'' (VDict (x_label hdr)) m1) = (None, md)"
    using assms b r1 by (simp add: extract_metadata_split run_statements_append assign_def)
  have "map_of md ''abscissa''
          = map_of (AList.update ''abscissa'' (VDict (x_label hdr)) m1) ''abscissa''"
  proof (rule run_statements_preserve [OF _ post])
    show "\<forall>f \<in> set ?post. \<forall>m r m'. f m = (r, m') \<longrightarrow>
            map_of m' ''abscissa'' = map_of m ''abscissa''"
      using assign_other [of "''abscissa''" "''ordinate''"]
        from_header_other [of "''abscissa''" "''number-of-data-points''"]
        acquisition_date_other [of "''abscissa''"]
      by auto
  qed
  then show ?thesis by (simp add: update_conv')
qed

lemma header_with_axis_metadata:
  "fst (extract_metadata sample_lib header_with_axis []) = None"
  by code_simp

section \<open>The x-axis label\<close>

text \<open>
  Claim C6. The label of the x-axis descriptor is \<open>wavelength (nm)\<close>, with the unit
  \<open>nm\<close>, when the header has the key \<open>XAxis mode\<close> with a value that is \<open>wavelengths\<close>
  in lower case; it is the value itself, without a unit, for any other value; and it
  is \<open>x\<close> without the key. Whenever \<open>_extract_metadata\<close> ends without an exception,
  this descriptor is the \<open>abscissa\<close> of the metadata.
\<close>

theorem abscissa_label:
  "map_of (x_label hdr) ''label''
     = Some (VStr (case map_of hdr ''XAxis mode'' of
                     None \<Rightarrow> ''x''
                   | Some v \<Rightarrow> if lower v = ''wavelengths'' then ''wavelength (nm)'' else v))
   \<and> map_of (x_label hdr) ''unit''
     = Some (VStr (case map_of hdr ''XAxis mode'' of
                     None \<Rightarrow> []
                   | Some v \<Rightarrow> if lower v = ''wavelengths'' then ''nm'' else []))
   \<and> (extract_metadata lib hdr md0 = (None, md) \<longrightarrow>
        map_of md ''abscissa'' = Some (VDict (x_label hdr)))"
  using extract_metadata_abscissa [of lib hdr md0 md]
  by (simp add: x_label_def unitmanager_no_value short_format_def split: option.splits)

theorem abscissa_label_witness:
  "map_of (snd (extract_metadata sample_lib header_with_axis [])) ''abscissa''
     = Some (VDict [(''name'', VStr ''wavelength''), (''unit'', VStr ''nm''),
                    (''label'', VStr ''wavelength (nm)'')])"
proof -
  have e: "extract_metadata sample_lib header_with_axis []
             = (None, snd (extract_metadata sample_lib header_with_axis []))"
    using header_with_axis_metadata by (metis prod.collapse)
  have x: "x_label header_with_axis
             = [(''name'', VStr ''wavelength''), (''unit'', VStr ''nm''),
                (''label'', VStr ''wavelength (nm)'')]"
    by code_simp
  show ?thesis
    using abscissa_label [of header_with_axis sample_lib "[]"
            "snd (extract_metadata sample_lib header_with_axis [])"] e x
    by simp
qed

section \<open>The rendering of the timestamp\<close>

declare str_nat.simps [simp del]

lemma str_nat_1: "n < 10 \<Longrightarrow> str_nat n = [digit_char n]"
  by (simp add: str_nat.simps [of n])

lemma str_nat_step: "10 \<le> n \<Longrightarrow> str_nat n = str_nat (n div 10) @ [digit_char (n mod 10)]"
  by (simp add: str_nat.simps [of n])

lemma str_nat_2: "10 \<le> n \<Longrightarrow> n < 100 \<Longrightarrow> str_nat n = [digit_char (n div 10), digit_char (n mod 10)]"
  by (simp add: str_nat_step str_nat_1)

lemma str_nat_3:
  "100 \<le> n \<Longrightarrow> n < 1000 \<Longrightarrow>
   str_nat n = [digit_char (n div 100), digit_char (n div 10 mod 10), digit_char (n mod 10)]"
  by (simp add: str_nat_step [of n] str_nat_2 div_mult2_eq [symmetric])

lemma str_nat_4:
  "1000 \<le> n \<Longrightarrow> n < 10000 \<Longrightarrow>
   str_nat n = [digit_char (n div 1000), digit_char (n div 100 mod 10),
                digit_char (n div 10 mod 10), digit_char (n mod 10)]"
  by (simp add: str_nat_step [of n] str_nat_3 div_mult2_eq [symmetric])

lemma str_nat_5:
  "10000 \<le> n \<Longrightarrow> n < 100000 \<Longrightarrow>
   str_nat n = [digit_char (n div 10000), digit_char (n div 1000 mod 10),
                digit_char (n div 100 mod 10), digit_char (n div 10 mod 10), digit_char (n mod 10)]"
  by (simp add: str_nat_step [of n] str_nat_4 div_mult2_eq [symmetric])

lemma str_nat_6:
  "100000 \<le> n \<Longrightarrow> n < 1000000 \<Longrightarrow>
   str_nat n = [digit_char (n div 100000), digit_char (n div 10000 mod 10),
                digit_char (n div 1000 mod 10), digit_char (n div 100 mod 10),
                digit_char (n div 10 mod 10), digit_char (n mod 10)]"
  by (simp add: str_nat_step [of n] str_nat_5 div_mult2_eq [symmetric])

lemma digit_char_0: "digit_char 0 = CHR ''0''"
  by code_simp

lemma digit_chars:
  "digit_char 0 = CHR ''0''" "digit_char (Suc 0) = CHR ''1''" "digit_char 1 = CHR ''1''"
  "digit_char 2 = CHR ''2''" "digit_char 3 = CHR ''3''" "digit_char 4 = CHR ''4''"
  "digit_char 5 = CHR ''5''" "digit_char 6 = CHR ''6''" "digit_char 7 = CHR ''7''"
  "digit_char 8 = CHR ''8''" "digit_char 9 = CHR ''9''"
  by code_simp+

lemma replicate_small:
  "replicate (Suc 0) c = [c]" "replicate 2 c = [c, c]" "replicate 3 c = [c, c, c]"
  "replicate 4 c = [c, c, c, c]" "replicate 5 c = [c, c, c, c, c]"
  by (simp_all add: numeral_eq_Suc)

lemma zfill2: "n < 100 \<Longrightarrow> zfill 2 (str_nat n) = digits2 n"
proof -
  assume n: "n < 100"
  consider "n < 10" | "10 \<le> n" by linarith
  then show ?thesis
  proof cases
    case 1 then show ?thesis
      by (simp add: zfill_def str_nat_1 digits2_def digit_char_0 replicate_small)
  next
    case 2 then show ?thesis using n by (simp add: zfill_def str_nat_2 digits2_def)
  qed
qed

lemma zfill4: "n < 10000 \<Longrightarrow> zfill 4 (str_nat n) = digits4 n"
proof -
  assume n: "n < 10000"
  consider "n < 10" | "10 \<le> n" "n < 100" | "100 \<le> n" "n < 1000" | "1000 \<le> n" by linarith
  then show ?thesis
  proof cases
    case 1 then show ?thesis
      by (simp add: zfill_def str_nat_1 digits4_def digit_char_0 replicate_small)
  next
    case 2 then show ?thesis
      by (simp add: zfill_def str_nat_2 digits4_def digit_char_0 replicate_small)
  next
    case 3 then show ?thesis
      by (simp add: zfill_def str_nat_3 digits4_def digit_char_0 replicate_small)
  next
    case 4 then show ?thesis using n by (simp add: zfill_def str_nat_4 digits4_def)
  qed
qed

lemma zfill6: "n < 1000000 \<Longrightarrow> zfill 6 (str_nat n) = digits6 n"
proof -
  assume n: "n < 1000000"
  consider "n < 10" | "10 \<le> n" "n < 100" | "100 \<le> n" "n < 1000" | "1000 \<le> n" "n < 10000"
    | "10000 \<le> n" "n < 100000" | "100000 \<le> n" by linarith
  then show ?thesis
  proof cases
    case 1 then show ?thesis
      by (simp add: zfill_def str_nat_1 digits6_def digit_char_0 replicate_small)
  next
    case 2 then show ?thesis
      by (simp add: zfill_def str_nat_2 digits6_def digit_char_0 replicate_small)
  next
    case 3 then show ?thesis
      by (simp add: zfill_def str_nat_3 digits6_def digit_char_0 replicate_small)
  next
    case 4 then show ?thesis
      by (simp add: zfill_def str_nat_4 digits6_def digit_char_0 replicate_small)
  next
    case 5 then show ?thesis
      by (simp add: zfill_def str_nat_5 digits6_def digit_char_0 replicate_small)
  next
    case 6 then show ?thesis using n by (simp add: zfill_def str_nat_6 digits6_def)
  qed
qed

lemma format_offset_digits:
  assumes "\<bar>off\<bar> < 86400"
  shows "format_offset off =
           (if off < 0 then ''-'' else ''+'')
           @ digits2 (nat \<bar>off\<bar> div 3600) @ '':'' @ digits2 (nat \<bar>off\<bar> mod 3600 div 60)
           @ (if nat \<bar>off\<bar> mod 60 = 0 then [] else '':'' @ digits2 (nat \<bar>off\<bar> mod 60))"
proof -
  have a: "nat \<bar>off\<bar> < 86400" using assms by linarith
  then have "nat \<bar>off\<bar> div 3600 < 100" by (simp add: less_mult_imp_div_less)
  moreover have "nat \<bar>off\<bar> mod 3600 div 60 < 100"
    by (rule less_mult_imp_div_less) (simp add: less_trans [OF mod_less_divisor])
  moreover have "nat \<bar>off\<bar> mod 60 < 100"
    by (rule less_trans [OF mod_less_divisor]) simp_all
  ultimately show ?thesis by (simp add: format_offset_def Let_def zfill2)
qed

lemma isoformat_digits:
  assumes "y < 10000" "m < 100" "d < 100" "hh < 100" "mm < 100" "ss < 100" "us < 1000000"
    "\<bar>off\<bar> < 86400"
  shows "isoformat (y, m, d) (hh, mm, ss, us) off = Inr (iso8601 y m d hh mm ss us off)"
  using assms by (simp add: isoformat_def iso8601_def zfill2 zfill4 zfill6 format_offset_digits)

lemma strptime_month_range:
  assumes "strptime_month s = Inr m"
  shows "1 \<le> m \<and> m \<le> 12"
proof -
  let ?names = "[''jan'', ''feb'', ''mar'', ''apr'', ''may'', ''jun'',
                 ''jul'', ''aug'', ''sep'', ''oct'', ''nov'', ''dec'']"
  have "map_of (zip ?names [1 ..< 13]) (map ascii_lower s) = Some m"
    using assms unfolding strptime_month_def by (simp split: option.splits)
  then have "(map ascii_lower s, m) \<in> set (zip ?names [1 ..< 13])"
    by (rule map_of_SomeD)
  then have "m \<in> set [1 ..< 13]" by (rule set_zip_rightD)
  then show ?thesis by simp
qed

lemma days_in_month_le: "days_in_month y m \<le> 31"
  by (simp add: days_in_month_def)

lemma py_date_valid:
  assumes "1 \<le> year" "year \<le> 9999" "1 \<le> month" "month \<le> 12" "1 \<le> day"
    "day \<le> days_in_month year month"
  shows "py_date year month day = Inr (nat year, month, nat day)"
proof -
  have "day \<le> 31" using assms(6) days_in_month_le [of year month] by linarith
  then show ?thesis using assms by (simp add: py_date_def)
qed

lemma py_date_invalid:
  assumes "\<not> (1 \<le> year \<and> year \<le> 9999 \<and> 1 \<le> day \<and> day \<le> days_in_month year month)"
  shows "isl (py_date year month day)"
  using assms by (auto simp: py_date_def)

section \<open>The acquisition date\<close>

lemma and_then_simps:
  "and_then (Inr x) f = f x" "and_then (Inl e) f = Inl e"
  by (simp_all add: and_then_def)

lemma date_to_isoformat_tokens:
  assumes "map_of hdr ''Date'' = Some v" "6 \<le> length (split_ws v)"
  shows "date_to_isoformat lib hdr
           = date_of_tokens lib (split_ws v ! 1) (split_ws v ! 2) (split_ws v ! 3)
               (split_ws v ! 4) (split_ws v ! 5)"
  using assms by (simp add: date_to_isoformat_def date_of_tokens_def item_def and_then_simps Let_def)

lemma date_to_isoformat_short:
  assumes "map_of hdr ''Date'' = Some v" "length (split_ws v) < 6"
  shows "date_to_isoformat lib hdr = Inl IndexError"
  using assms by (simp add: date_to_isoformat_def item_def and_then_simps Let_def)

lemma date_of_tokens_fails:
  assumes "isl (py_int p5) \<or> isl (strptime_month p1) \<or> isl (py_int p2)
           \<or> time_fromisoformat lib p3 = None \<or> pytz_timezone lib p4 = None"
  shows "isl (date_of_tokens lib p1 p2 p3 p4 p5)"
  using assms
  by (auto simp: date_of_tokens_def and_then_def or_raise_def split: sum.splits option.splits)

lemma sample_date_tokens:
  "split_ws ''Thu Feb 27 15:05:24 GMT 2020''
     = [''Thu'', ''Feb'', ''27'', ''15:05:24'', ''GMT'', ''2020'']"
  by code_simp

lemma sample_date_parts:
  "py_int ''2020'' = Inr 2020" "strptime_month ''Feb'' = Inr 2" "py_int ''27'' = Inr 27"
  "py_date 2020 2 27 = Inr (2020, 2, 27)"
  "isoformat (2020, 2, 27) (15, 5, 24, 0) 0 = Inr ''2020-02-27T15:05:24+00:00''"
  by code_simp+

lemma sample_date_of_tokens:
  assumes "time_fromisoformat lib ''15:05:24'' = Some (15, 5, 24, 0)"
    and "pytz_timezone lib ''GMT'' = Some 0"
  shows "date_of_tokens lib ''Feb'' ''27'' ''15:05:24'' ''GMT'' ''2020''
           = Inr (Some ''2020-02-27T15:05:24+00:00'')"
  using assms by (simp add: date_of_tokens_def sample_date_parts and_then_simps or_raise_def)

lemma extract_metadata_date:
  assumes "map_of hdr ''Date'' = Some v" "date_to_isoformat lib hdr = Inr (Some s)"
    and "extract_metadata lib hdr md0 = (None, md)"
  shows "map_of md ''acquisition-date'' = Some (VStr s)"
proof -
  let ?pre = "statements_before_abscissa hdr
       @ [assign ''abscissa'' (VDict (x_label hdr))]
       @ [assign ''ordinate'' (VDict y_label),
          from_header hdr ''Number of Pixels in Spectrum'' ''number-of-data-points'' int_value]"
  have sp: "extract_metadata lib hdr = run_statements (?pre @ [acquisition_date lib hdr])"
    by (simp add: extract_metadata_split)
  obtain r1 m1 where b: "run_statements ?pre md0 = (r1, m1)"
    by (cases "run_statements ?pre md0")
  have r1: "r1 = None"
    using assms(3) b unfolding sp run_statements_append by (cases r1) simp_all
  have "acquisition_date lib hdr m1 = (None, md)"
    using assms(3) b r1 unfolding sp run_statements_append
    by (simp split: prod.splits option.splits)
  then have "md = AList.update ''acquisition-date'' (VStr s) m1"
    using assms(1,2) by (simp add: acquisition_date_def)
  then show ?thesis by (simp add: update_conv')
qed

lemma date_of_tokens_renders:
  assumes "py_int p5 = Inr year" "strptime_month p1 = Inr month" "py_int p2 = Inr day"
    and "1 \<le> year" "year \<le> 9999" "1 \<le> day" "day \<le> days_in_month year month"
    and "time_fromisoformat lib p3 = Some (hh, mm, ss, us)"
    and "hh < 24" "mm < 60" "ss < 60" "us < 1000000"
    and "pytz_timezone lib p4 = Some off" "\<bar>off\<bar> < 86400"
  shows "date_of_tokens lib p1 p2 p3 p4 p5
           = Inr (Some (iso8601 (nat year) month (nat day) hh mm ss us off))"
proof -
  note mr = strptime_month_range [OF assms(2)]
  have d: "py_date year month day = Inr (nat year, month, nat day)"
    using py_date_valid assms(4-7) mr by blast
  have "day \<le> 31" using assms(7) days_in_month_le [of year month] by linarith
  then have r: "nat year < 10000" "month < 100" "nat day < 100" "hh < 100" "mm < 100" "ss < 100"
    using assms(5,9,10,11) mr by simp_all
  have "isoformat (nat year, month, nat day) (hh, mm, ss, us) off
          = Inr (iso8601 (nat year) month (nat day) hh mm ss us off)"
    using isoformat_digits [OF r assms(12,14)] .
  then show ?thesis
    using assms(1,2,3,8,13) d by (simp add: date_of_tokens_def and_then_simps or_raise_def)
qed

lemma date_of_tokens_bad_day:
  assumes "py_int p5 = Inr year" "strptime_month p1 = Inr month" "py_int p2 = Inr day"
    and "\<not> (1 \<le> year \<and> year \<le> 9999 \<and> 1 \<le> day \<and> day \<le> days_in_month year month)"
  shows "isl (date_of_tokens lib p1 p2 p3 p4 p5)"
  using assms(1,2,3) py_date_invalid [OF assms(4)]
  by (auto simp: date_of_tokens_def and_then_simps and_then_def split: sum.splits)

text \<open>
  Claim C7, as the code has it. For a header with the date
  \<open>Thu Feb 27 15:05:24 GMT 2020\<close>, and a library that reads the time \<open>15:05:24\<close> and
  knows the zone \<open>GMT\<close> with offset zero, the method gives
  \<open>2020-02-27T15:05:24+00:00\<close>, and that is the \<open>acquisition-date\<close> of the metadata.
  In general the value is cut at whitespace and the second to sixth token are read as
  month abbreviation, day, time, zone name and year: when they are a month, integers
  that give a day of that month in a year from 1 to 9999, a time and a known zone, the
  result is the timestamp in the ISO 8601 format with the offset of the zone, and it is
  the \<open>acquisition-date\<close> of the metadata. With fewer than six tokens the method raises
  IndexError; with six or more it raises when the sixth or third token is not an
  integer, the second is not a month abbreviation, the fourth is not a time, the fifth
  is not a known zone, or the day is not a day of that month and year. The result
  depends on the second to sixth token only, so the first token and any token after
  the sixth are not checked.
\<close>

theorem date_rule:
  assumes "map_of hdr ''Date'' = Some v"
  shows "(v = ''Thu Feb 27 15:05:24 GMT 2020''
            \<and> time_fromisoformat lib ''15:05:24'' = Some (15, 5, 24, 0)
            \<and> pytz_timezone lib ''GMT'' = Some 0 \<longrightarrow>
          date_to_isoformat lib hdr = Inr (Some ''2020-02-27T15:05:24+00:00'')
          \<and> (\<forall>md0 md. extract_metadata lib hdr md0 = (None, md) \<longrightarrow>
                map_of md ''acquisition-date'' = Some (VStr ''2020-02-27T15:05:24+00:00'')))
       \<and> (\<forall>year month day hh mm ss us off.
             6 \<le> length (split_ws v)
             \<and> strptime_month (split_ws v ! 1) = Inr month
             \<and> py_int (split_ws v ! 2) = Inr day
             \<and> time_fromisoformat lib (split_ws v ! 3) = Some (hh, mm, ss, us)
             \<and> pytz_timezone lib (split_ws v ! 4) = Some off
             \<and> py_int (split_ws v ! 5) = Inr year
             \<and> 1 \<le> year \<and> year \<le> 9999 \<and> 1 \<le> day \<and> day \<le> days_in_month year month
             \<and> hh < 24 \<and> mm < 60 \<and> ss < 60 \<and> us < 1000000 \<and> \<bar>off\<bar> < 86400 \<longrightarrow>
          date_to_isoformat lib hdr
            = Inr (Some (iso8601 (nat year) month (nat day) hh mm ss us off))
          \<and> (\<forall>md0 md. extract_metadata lib hdr md0 = (None, md) \<longrightarrow>
                map_of md ''acquisition-date''
                  = Some (VStr (iso8601 (nat year) month (nat day) hh mm ss us off))))
       \<and> (length (split_ws v) < 6 \<longrightarrow> date_to_isoformat lib hdr = Inl IndexError)
       \<and> (6 \<le> length (split_ws v)
            \<and> (isl (py_int (split_ws v ! 5)) \<or> isl (strptime_month (split_ws v ! 1))
                \<or> isl (py_int (split_ws v ! 2)) \<or> time_fromisoformat lib (split_ws v ! 3) = None
                \<or> pytz_timezone lib (split_ws v ! 4) = None) \<longrightarrow>
          isl (date_to_isoformat lib hdr))
       \<and> (\<forall>year month day.
             6 \<le> length (split_ws v)
             \<and> strptime_month (split_ws v ! 1) = Inr month
             \<and> py_int (split_ws v ! 2) = Inr day
             \<and> py_int (split_ws v ! 5) = Inr year
             \<and> \<not> (1 \<le> year \<and> year \<le> 9999 \<and> 1 \<le> day \<and> day \<le> days_in_month year month) \<longrightarrow>
          isl (date_to_isoformat lib hdr))
       \<and> (\<forall>hdr' v'. map_of hdr' ''Date'' = Some v' \<and> 6 \<le> length (split_ws v)
            \<and> 6 \<le> length (split_ws v')
            \<and> take 5 (drop 1 (split_ws v')) = take 5 (drop 1 (split_ws v)) \<longrightarrow>
          date_to_isoformat lib hdr' = date_to_isoformat lib hdr)"
proof -
  have a: "date_to_isoformat lib hdr = Inr (Some ''2020-02-27T15:05:24+00:00'')
          \<and> (\<forall>md0 md. extract_metadata lib hdr md0 = (None, md) \<longrightarrow>
                map_of md ''acquisition-date'' = Some (VStr ''2020-02-27T15:05:24+00:00''))"
    if "v = ''Thu Feb 27 15:05:24 GMT 2020''"
      "time_fromisoformat lib ''15:05:24'' = Some (15, 5, 24, 0)"
      "pytz_timezone lib ''GMT'' = Some 0"
  proof -
    have "date_to_isoformat lib hdr = Inr (Some ''2020-02-27T15:05:24+00:00'')"
      using date_to_isoformat_tokens [OF assms, of lib] sample_date_of_tokens [OF that(2,3)]
      by (simp add: that(1) sample_date_tokens)
    then show ?thesis using extract_metadata_date [OF assms] by blast
  qed
  have g: "date_to_isoformat lib hdr
            = Inr (Some (iso8601 (nat year) month (nat day) hh mm ss us off))
          \<and> (\<forall>md0 md. extract_metadata lib hdr md0 = (None, md) \<longrightarrow>
                map_of md ''acquisition-date''
                  = Some (VStr (iso8601 (nat year) month (nat day) hh mm ss us off)))"
    if "6 \<le> length (split_ws v)"
      "strptime_month (split_ws v ! 1) = Inr month"
      "py_int (split_ws v ! 2) = Inr day"
      "time_fromisoformat lib (split_ws v ! 3) = Some (hh, mm, ss, us)"
      "pytz_timezone lib (split_ws v ! 4) = Some off"
      "py_int (split_ws v ! 5) = Inr year"
      "1 \<le> year" "year \<le> 9999" "1 \<le> day" "day \<le> days_in_month year month"
      "hh < 24" "mm < 60" "ss < 60" "us < 1000000" "\<bar>off\<bar> < 86400"
    for year month day hh mm ss us off
  proof -
    have "date_to_isoformat lib hdr
            = Inr (Some (iso8601 (nat year) month (nat day) hh mm ss us off))"
      using date_to_isoformat_tokens [OF assms that(1), of lib]
        date_of_tokens_renders [OF that(6,2,3) that(7-10) that(4) that(11-14) that(5,15)]
      by simp
    then show ?thesis using extract_metadata_date [OF assms] by blast
  qed
  have b: "date_to_isoformat lib hdr = Inl IndexError" if "length (split_ws v) < 6"
    using date_to_isoformat_short [OF assms that] .
  have c: "isl (date_to_isoformat lib hdr)"
    if "6 \<le> length (split_ws v)"
      "isl (py_int (split_ws v ! 5)) \<or> isl (strptime_month (split_ws v ! 1))
                \<or> isl (py_int (split_ws v ! 2)) \<or> time_fromisoformat lib (split_ws v ! 3) = None
                \<or> pytz_timezone lib (split_ws v ! 4) = None"
    using date_to_isoformat_tokens [OF assms that(1), of lib] date_of_tokens_fails [OF that(2)]
    by simp
  have e: "isl (date_to_isoformat lib hdr)"
    if "6 \<le> length (split_ws v)"
      "strptime_month (split_ws v ! 1) = Inr month"
      "py_int (split_ws v ! 2) = Inr day"
      "py_int (split_ws v ! 5) = Inr year"
      "\<not> (1 \<le> year \<and> year \<le> 9999 \<and> 1 \<le> day \<and> day \<le> days_in_month year month)"
    for year month day
    using date_to_isoformat_tokens [OF assms that(1), of lib]
      date_of_tokens_bad_day [OF that(4,2,3,5)]
    by simp
  have d: "date_to_isoformat lib hdr' = date_to_isoformat lib hdr"
    if "map_of hdr' ''Date'' = Some v'" "6 \<le> length (split_ws v)" "6 \<le> length (split_ws v')"
      "take 5 (drop 1 (split_ws v')) = take 5 (drop 1 (split_ws v))" for hdr' v'
  proof -
    have n: "split_ws v' ! Suc i = split_ws v ! Suc i" if "i < 5" for i
    proof -
      have "take 5 (drop 1 (split_ws v')) ! i = take 5 (drop 1 (split_ws v)) ! i"
        using \<open>take 5 (drop 1 (split_ws v')) = take 5 (drop 1 (split_ws v))\<close> by simp
      then show ?thesis using that \<open>6 \<le> length (split_ws v)\<close> \<open>6 \<le> length (split_ws v')\<close>
        by simp
    qed
    have "split_ws v' ! 1 = split_ws v ! 1" "split_ws v' ! 2 = split_ws v ! 2"
      "split_ws v' ! 3 = split_ws v ! 3" "split_ws v' ! 4 = split_ws v ! 4"
      "split_ws v' ! 5 = split_ws v ! 5"
      using n [of 0] n [of 1] n [of 2] n [of 3] n [of 4] by (simp_all add: numeral_eq_Suc)
    then show ?thesis
      using date_to_isoformat_tokens [OF assms that(2), of lib]
        date_to_isoformat_tokens [OF that(1,3), of lib] by simp
  qed
  show ?thesis
    apply (intro conjI allI impI)
    subgoal using a by blast
    subgoal using a by blast
    subgoal for year month day hh mm ss us off using g [of month day hh mm ss us off year] by blast
    subgoal for year month day hh mm ss us off using g [of month day hh mm ss us off year] by blast
    subgoal using b by blast
    subgoal using c by blast
    subgoal for year month day using e [of month day year] by blast
    subgoal for hdr' v' using d [of hdr' v'] by blast
    done
qed

theorem date_rule_witness:
  "date_to_isoformat sample_lib header_with_axis = Inr (Some ''2020-02-27T15:05:24+00:00'')
   \<and> map_of (snd (extract_metadata sample_lib header_with_axis [])) ''acquisition-date''
       = Some (VStr ''2020-02-27T15:05:24+00:00'')
   \<and> date_to_isoformat late_lib header_with_late_date
       = Inr (Some ''2020-12-31T23:59:59.000007-01:00'')
   \<and> date_to_isoformat sample_lib header_with_short_date = Inl IndexError
   \<and> isl (date_to_isoformat sample_lib header_with_unknown_zone)
   \<and> isl (date_to_isoformat sample_lib header_with_bad_day)
   \<and> date_to_isoformat sample_lib header_with_odd_date
       = date_to_isoformat sample_lib header_with_axis"
proof -
  have h1: "map_of header_with_axis ''Date'' = Some ''Thu Feb 27 15:05:24 GMT 2020''"
    by (simp add: header_with_axis_def)
  have l: "time_fromisoformat sample_lib ''15:05:24'' = Some (15, 5, 24, 0)"
    "pytz_timezone sample_lib ''GMT'' = Some 0"
    by (simp_all add: sample_lib_def)
  have e: "extract_metadata sample_lib header_with_axis []
             = (None, snd (extract_metadata sample_lib header_with_axis []))"
    using header_with_axis_metadata by (metis prod.collapse)
  have h2: "map_of header_with_short_date ''Date'' = Some ''27 Feb 2020''"
    by (simp add: header_with_short_date_def)
  have s2: "length (split_ws ''27 Feb 2020'') < 6" by code_simp
  have h3: "map_of header_with_unknown_zone ''Date'' = Some ''Thu Feb 27 15:05:24 Mars 2020''"
    by (simp add: header_with_unknown_zone_def)
  have s3: "6 \<le> length (split_ws ''Thu Feb 27 15:05:24 Mars 2020'')"
    "pytz_timezone sample_lib (split_ws ''Thu Feb 27 15:05:24 Mars 2020'' ! 4) = None"
    by code_simp+
  have h4: "map_of header_with_odd_date ''Date'' = Some ''Xyz Feb 27 15:05:24 GMT 2020 extra''"
    by (simp add: header_with_odd_date_def)
  have s4: "6 \<le> length (split_ws ''Thu Feb 27 15:05:24 GMT 2020'')"
    "6 \<le> length (split_ws ''Xyz Feb 27 15:05:24 GMT 2020 extra'')"
    "take 5 (drop 1 (split_ws ''Xyz Feb 27 15:05:24 GMT 2020 extra''))
       = take 5 (drop 1 (split_ws ''Thu Feb 27 15:05:24 GMT 2020''))"
    by code_simp+
  have h5: "map_of header_with_late_date ''Date''
              = Some ''Thu Dec 31 23:59:59.000007 Etc/GMT+1 2020''"
    by (simp add: header_with_late_date_def)
  have s5: "6 \<le> length (split_ws ''Thu Dec 31 23:59:59.000007 Etc/GMT+1 2020'')"
    "strptime_month (split_ws ''Thu Dec 31 23:59:59.000007 Etc/GMT+1 2020'' ! 1) = Inr 12"
    "py_int (split_ws ''Thu Dec 31 23:59:59.000007 Etc/GMT+1 2020'' ! 2) = Inr 31"
    "time_fromisoformat late_lib (split_ws ''Thu Dec 31 23:59:59.000007 Etc/GMT+1 2020'' ! 3)
       = Some (23, 59, 59, 7)"
    "pytz_timezone late_lib (split_ws ''Thu Dec 31 23:59:59.000007 Etc/GMT+1 2020'' ! 4)
       = Some (- 3600)"
    "py_int (split_ws ''Thu Dec 31 23:59:59.000007 Etc/GMT+1 2020'' ! 5) = Inr 2020"
    "(31 :: int) \<le> days_in_month 2020 12"
    by code_simp+
  have i5: "iso8601 (nat 2020) 12 (nat 31) 23 59 59 7 (- 3600)
              = ''2020-12-31T23:59:59.000007-01:00''"
    by (simp add: iso8601_def digits2_def digits4_def digits6_def digit_chars)
  have h6: "map_of header_with_bad_day ''Date'' = Some ''Sun Feb 30 15:05:24 GMT 2020''"
    by (simp add: header_with_bad_day_def)
  have s6: "6 \<le> length (split_ws ''Sun Feb 30 15:05:24 GMT 2020'')"
    "strptime_month (split_ws ''Sun Feb 30 15:05:24 GMT 2020'' ! 1) = Inr 2"
    "py_int (split_ws ''Sun Feb 30 15:05:24 GMT 2020'' ! 2) = Inr 30"
    "py_int (split_ws ''Sun Feb 30 15:05:24 GMT 2020'' ! 5) = Inr 2020"
    "\<not> (30 :: int) \<le> days_in_month 2020 2"
    by code_simp+
  note r1 = date_rule [OF h1, of sample_lib]
  note r2 = date_rule [OF h2, of sample_lib]
  note r3 = date_rule [OF h3, of sample_lib]
  note r5 = date_rule [OF h5, of late_lib]
  note r6 = date_rule [OF h6, of sample_lib]
  note r1_sample = r1 [THEN conjunct1]
  have a: "date_to_isoformat sample_lib header_with_axis = Inr (Some ''2020-02-27T15:05:24+00:00'')"
    using r1_sample l by simp
  have b: "map_of (snd (extract_metadata sample_lib header_with_axis [])) ''acquisition-date''
       = Some (VStr ''2020-02-27T15:05:24+00:00'')"
    using r1_sample l e by blast
  have c: "date_to_isoformat sample_lib header_with_short_date = Inl IndexError"
    using r2 [THEN conjunct2, THEN conjunct2, THEN conjunct1] s2 by simp
  have d: "isl (date_to_isoformat sample_lib header_with_unknown_zone)"
    using r3 [THEN conjunct2, THEN conjunct2, THEN conjunct2, THEN conjunct1] s3 by simp
  have f: "date_to_isoformat sample_lib header_with_odd_date
       = date_to_isoformat sample_lib header_with_axis"
    using r1 [THEN conjunct2, THEN conjunct2, THEN conjunct2, THEN conjunct2, THEN conjunct2,
              rule_format, of header_with_odd_date "''Xyz Feb 27 15:05:24 GMT 2020 extra''"]
      h4 s4
    by simp
  have "date_to_isoformat late_lib header_with_late_date
          = Inr (Some (iso8601 (nat 2020) 12 (nat 31) 23 59 59 7 (- 3600)))"
    using r5 [THEN conjunct2, THEN conjunct1, rule_format,
              of 12 31 23 59 59 7 "- 3600" 2020, THEN conjunct1] s5
    by simp
  then have g: "date_to_isoformat late_lib header_with_late_date
          = Inr (Some ''2020-12-31T23:59:59.000007-01:00'')"
    using i5 by simp
  have k: "isl (date_to_isoformat sample_lib header_with_bad_day)"
    using r6 [THEN conjunct2, THEN conjunct2, THEN conjunct2, THEN conjunct2, THEN conjunct1,
              rule_format, of 2 30 2020] s6
    by simp
  show ?thesis using a b c d f g k by simp
qed

text \<open>
  A date whose first token is no weekday and that has a seventh token is converted
  like the well-formed one.
\<close>

theorem odd_date_is_accepted:
  "date_to_isoformat sample_lib header_with_odd_date = Inr (Some ''2020-02-27T15:05:24+00:00'')
   \<and> fst (extract_metadata sample_lib header_with_odd_date []) = None
   \<and> map_of (snd (extract_metadata sample_lib header_with_odd_date [])) ''acquisition-date''
       = Some (VStr ''2020-02-27T15:05:24+00:00'')"
  by code_simp

section \<open>The chain of encoders\<close>

lemma default_first:
  "i < length encoders \<Longrightarrow> (encoders ! i) obj = r \<Longrightarrow> r \<noteq> Inl TypeError \<Longrightarrow>
   \<forall>j<i. (encoders ! j) obj = Inl TypeError \<Longrightarrow> default encoders obj = r"
proof (induction encoders arbitrary: i)
  case Nil then show ?case by simp
next
  case (Cons enc encs)
  show ?case
  proof (cases i)
    case 0
    then show ?thesis using Cons.prems by (auto split: sum.splits)
  next
    case (Suc i')
    have "enc obj = Inl TypeError" using Cons.prems(4) Suc by auto
    moreover have "default encs obj = r"
    proof (rule Cons.IH [of i'])
      show "i' < length encs" using Cons.prems(1) Suc by simp
      show "(encs ! i') obj = r" using Cons.prems(2) Suc by simp
      show "r \<noteq> Inl TypeError" using Cons.prems(3) .
      show "\<forall>j<i'. (encs ! j) obj = Inl TypeError"
        using Cons.prems(4) Suc by auto
    qed
    ultimately show ?thesis by simp
  qed
qed

lemma default_origin:
  "default encoders obj = r \<Longrightarrow> r \<noteq> Inl TypeError \<Longrightarrow>
   \<exists>i<length encoders. (encoders ! i) obj = r \<and> (\<forall>j<i. (encoders ! j) obj = Inl TypeError)"
proof (induction encoders)
  case Nil then show ?case by simp
next
  case (Cons enc encs)
  show ?case
  proof (cases "enc obj = Inl TypeError")
    case True
    then have "default encs obj = r" using Cons.prems(1) by simp
    then obtain i where i: "i < length encs" "(encs ! i) obj = r"
        "\<forall>j<i. (encs ! j) obj = Inl TypeError"
      using Cons.IH Cons.prems(2) by blast
    have "\<forall>j<Suc i. ((enc # encs) ! j) obj = Inl TypeError"
      using True i(3) by (auto simp: less_Suc_eq_0_disj)
    then have "Suc i < length (enc # encs) \<and> ((enc # encs) ! Suc i) obj = r
               \<and> (\<forall>j<Suc i. ((enc # encs) ! j) obj = Inl TypeError)"
      using i by simp
    then show ?thesis by blast
  next
    case False
    then have "default (enc # encs) obj = enc obj"
      by (auto split: sum.splits)
    then have "0 < length (enc # encs) \<and> ((enc # encs) ! 0) obj = r
               \<and> (\<forall>j<0. ((enc # encs) ! j) obj = Inl TypeError)"
      using Cons.prems(1) by simp
    then show ?thesis by blast
  qed
qed

lemma default_declines_iff:
  "default encoders obj = Inl TypeError \<longleftrightarrow> (\<forall>enc \<in> set encoders. enc obj = Inl TypeError)"
  by (induction encoders) (auto split: sum.splits)

text \<open>
  Claim C8, as the code has it. An encoder declines a value by raising TypeError. The
  encoders are tried in the order of the list, and the first one that does not raise
  TypeError decides: what it returns is the result, and an exception of another kind
  that it raises is raised by \<open>default\<close>, the encoders after it not being tried. A value
  that \<open>default\<close> returns is therefore the value of the first encoder that returned
  one, all before it having raised TypeError. \<open>default\<close> raises TypeError exactly when
  every encoder raises TypeError, so no value is passed over in silence. The order
  matters: two encoders that both accept a quantity give different results in the two
  orders.
\<close>

theorem default_first_accepting_encoder:
  "(\<forall>i r. i < length encoders \<and> (encoders ! i) obj = r \<and> r \<noteq> Inl TypeError
           \<and> (\<forall>j<i. (encoders ! j) obj = Inl TypeError) \<longrightarrow>
         default encoders obj = r)
   \<and> (\<forall>r. default encoders obj = r \<and> r \<noteq> Inl TypeError \<longrightarrow>
         (\<exists>i<length encoders. (encoders ! i) obj = r
            \<and> (\<forall>j<i. (encoders ! j) obj = Inl TypeError)))
   \<and> (default encoders obj = Inl TypeError \<longleftrightarrow>
         (\<forall>enc \<in> set encoders. enc obj = Inl TypeError))
   \<and> default [quantity_as_text, quantity_as_magnitude] half_second = Inr ''0.5 s''
   \<and> default [quantity_as_magnitude, quantity_as_text] half_second = Inr ''0.5''"
proof -
  have a: "default encoders obj = r"
    if "i < length encoders" "(encoders ! i) obj = r" "r \<noteq> Inl TypeError"
      "\<forall>j<i. (encoders ! j) obj = Inl TypeError"
    for i r
    using default_first [OF that] .
  have b: "\<exists>i<length encoders. (encoders ! i) obj = r
            \<and> (\<forall>j<i. (encoders ! j) obj = Inl TypeError)"
    if "default encoders obj = r" "r \<noteq> Inl TypeError" for r
    using default_origin [OF that] .
  have d: "default [quantity_as_text, quantity_as_magnitude] half_second = Inr ''0.5 s''"
    "default [quantity_as_magnitude, quantity_as_text] half_second = Inr ''0.5''"
    by (simp_all add: quantity_as_text_def quantity_as_magnitude_def half_second_def
        short_format_def)
  show ?thesis using a b d default_declines_iff [of encoders obj] by blast
qed

theorem default_first_accepting_encoder_witness:
  "default [quantity_as_text, quantity_as_magnitude] (VStr ''text'') = Inl TypeError
   \<and> default [quantity_as_text, quantity_as_magnitude, failing_encoder] half_second
       = Inr ''0.5 s''
   \<and> default [quantity_as_text, failing_encoder, quantity_as_magnitude] (VStr ''text'')
       = Inl ValueError"
proof -
  have t: "\<forall>enc \<in> set [quantity_as_text, quantity_as_magnitude]. enc (VStr ''text'') = Inl TypeError"
    by (simp add: quantity_as_text_def quantity_as_magnitude_def)
  let ?e1 = "[quantity_as_text, quantity_as_magnitude, failing_encoder]"
  have s1: "0 < length ?e1" "(?e1 ! 0) half_second = Inr ''0.5 s''"
    "(Inr ''0.5 s'' :: error + string) \<noteq> Inl TypeError"
    "\<forall>j<0. (?e1 ! j) half_second = Inl TypeError"
    by (simp_all add: quantity_as_text_def half_second_def short_format_def)
  let ?e2 = "[quantity_as_text, failing_encoder, quantity_as_magnitude]"
  have s2: "1 < length ?e2" "(?e2 ! 1) (VStr ''text'') = Inl ValueError"
    "(Inl ValueError :: error + string) \<noteq> Inl TypeError"
    "\<forall>j<1. (?e2 ! j) (VStr ''text'') = Inl TypeError"
    by (simp_all add: quantity_as_text_def failing_encoder_def)
  show ?thesis
    using default_first_accepting_encoder [of "[quantity_as_text, quantity_as_magnitude]"
            "VStr ''text''"]
      default_first_accepting_encoder [of ?e1 half_second]
      default_first_accepting_encoder [of ?e2 "VStr ''text''"] t s1 s2
    by blast
qed

text \<open>
  An encoder that accepts the quantity stands behind one that raises ValueError:
  \<open>default\<close> raises the ValueError.
\<close>

theorem failing_encoder_ends_the_chain:
  "quantity_as_text half_second = Inr ''0.5 s''
   \<and> default [failing_encoder, quantity_as_text] half_second = Inl ValueError"
  by (simp add: quantity_as_text_def failing_encoder_def half_second_def short_format_def)


end
